theory Spec2Isabelle
  imports Main "HOL-Library.Word"
begin

section \<open>Data model of the debugger (src/debugger/debugger.c)\<close>

type_synonym uint32_t = "32 word"

text \<open>\<open>size_t\<close> of an LP64 host; \<open>-\<close> wraps around as the unsigned C type does.\<close>

type_synonym size_t = "64 word"

text \<open>\<open>struct DebugVector\<close>: one node of the argument list, a tag and a union. The
  \<open>next\<close> pointer is the tail of a HOL list (the null pointer is \<open>[]\<close>). The node
  of an error has its union unwritten, as \<open>malloc\<close> returned it.\<close>

datatype DVType = ERROR_TYPE | INT_TYPE | CHAR_TYPE

datatype DebugVector = DV_ERROR | DV_INT uint32_t | DV_CHAR string

fun type :: "DebugVector \<Rightarrow> DVType" where
  "type DV_ERROR = ERROR_TYPE"
| "type (DV_INT intValue) = INT_TYPE"
| "type (DV_CHAR charValue) = CHAR_TYPE"

text \<open>Modelled from the spec: \<open>debugger.h\<close> is not among the sources. The states
  are ordered so that Running and Paused, the two active states, lie below Exiting, which
  is what the comparison \<open>state < DEBUGGER_EXITING\<close> of the run loop relies on.\<close>

datatype DebuggerState =
  DEBUGGER_PAUSED | DEBUGGER_RUNNING | DEBUGGER_EXITING | DEBUGGER_SHUTDOWN

fun DebuggerState_val :: "DebuggerState \<Rightarrow> int" where
  "DebuggerState_val DEBUGGER_PAUSED = 0"
| "DebuggerState_val DEBUGGER_RUNNING = 1"
| "DebuggerState_val DEBUGGER_EXITING = 2"
| "DebuggerState_val DEBUGGER_SHUTDOWN = 3"

text \<open>Modelled from the spec: \<open>arm.h\<close> is not among the sources. The mode bit of the
  status register selects the wide (ARM, 4 bytes) or the compact (Thumb, 2 bytes)
  encoding; the status register has the seven flags that \<open>_printPSR\<close> shows and its
  packed value; PC, SP and LR are the architecture's fixed register indices.\<close>

datatype ExecutionMode = MODE_ARM | MODE_THUMB

definition WORD_SIZE_ARM :: uint32_t where "WORD_SIZE_ARM = 4"
definition WORD_SIZE_THUMB :: uint32_t where "WORD_SIZE_THUMB = 2"

definition ARM_SP :: nat where "ARM_SP = 13"
definition ARM_LR :: nat where "ARM_LR = 14"
definition ARM_PC :: nat where "ARM_PC = 15"

record PSR =
  packed :: uint32_t
  psr_n :: bool
  psr_z :: bool
  psr_c :: bool
  psr_v :: bool
  psr_i :: bool
  psr_f :: bool
  psr_t :: ExecutionMode

text \<open>The pointer \<open>cpu->memory\<close>: either the address of the controller's own
  \<open>memoryShim.d\<close> or the address of some other memory interface.\<close>

datatype ARMMemory_ptr = MemoryShim_d | Memory_at nat

text \<open>\<open>struct ARMCore\<close>, the fields the debugger reads: the register file
  \<open>gprs[16]\<close> (read at the indices 0 to 15 only), the status register and the pointer
  to the active memory interface.\<close>

record ARMCore =
  gprs :: "nat \<Rightarrow> uint32_t"
  cpsr :: PSR
  memory :: ARMMemory_ptr

record DebugMemoryShim =
  watchpoints :: "uint32_t list"

text \<open>One call of \<open>printf\<close>: the format string and the arguments, not rendered.\<close>

datatype printf_arg = ArgInt uint32_t | ArgChar char | ArgStr string | ArgIndeterminate

type_synonym printf_call = "string \<times> printf_arg list"

text \<open>\<open>struct ARMDebugger\<close>. The breakpoint and watchpoint lists are the linked lists
  of \<open>struct DebugBreakpoint\<close>, head first, each node its address. \<open>histate\<close> is
  the history of the line editor, most recent entry first. \<open>stdout\<close> is not a field
  of the C struct: it is the standard output of the process, carried along.\<close>

record ARMDebugger =
  state :: DebuggerState
  cpu :: ARMCore
  breakpoints :: "uint32_t list"
  memoryShim :: DebugMemoryShim
  histate :: "string list"
  stdout :: "printf_call list"

text \<open>The collaborators outside this file, taken as parameters: the CPU step
  \<open>ARMRun\<close> (which reaches the controller through the memory shim, so it maps the
  whole controller), the three loads through \<open>cpu->memory\<close> (value and controller
  after the call), and \<open>ARMDebuggerInstallMemoryShim\<close>.\<close>

record collaborators =
  ARMRun :: "ARMDebugger \<Rightarrow> ARMDebugger"
  load32 :: "ARMDebugger \<Rightarrow> uint32_t \<Rightarrow> uint32_t \<times> ARMDebugger"
  loadU16 :: "ARMDebugger \<Rightarrow> uint32_t \<Rightarrow> 16 word \<times> ARMDebugger"
  loadU8 :: "ARMDebugger \<Rightarrow> uint32_t \<Rightarrow> 8 word \<times> ARMDebugger"
  ARMDebuggerInstallMemoryShim :: "ARMDebugger \<Rightarrow> ARMDebugger"

definition NUL :: char where "NUL = CHR 0x00"
definition NL :: char where "NL = CHR 0x0A"

text \<open>A C string is the list of its bytes; reading at its end gives the terminator.\<close>

fun peek :: "string \<Rightarrow> char" where
  "peek [] = NUL"
| "peek (c # s) = c"

definition printf :: "string \<Rightarrow> printf_arg list \<Rightarrow> ARMDebugger \<Rightarrow> ARMDebugger" where
  "printf fmt args debugger = debugger\<lparr>stdout := stdout debugger @ [(fmt, args)]\<rparr>"

section \<open>The argument parser \<open>_DVParse\<close>\<close>

datatype DVParseState =
  PARSE_ERROR
  | PARSE_ROOT
  | PARSE_EXPECT_REGISTER
  | PARSE_EXPECT_REGISTER_2
  | PARSE_EXPECT_LR
  | PARSE_EXPECT_PC
  | PARSE_EXPECT_SP
  | PARSE_EXPECT_DECIMAL
  | PARSE_EXPECT_HEX
  | PARSE_EXPECT_PREFIX
  | PARSE_EXPECT_SUFFIX

text \<open>\<open>token - '0'\<close> and its siblings, as added to the 32-bit accumulator.\<close>

definition char_diff :: "char \<Rightarrow> char \<Rightarrow> uint32_t" where
  "char_diff token base = of_char token - of_char base"

text \<open>The body of the \<open>switch (state)\<close>: the state and the accumulator after one
  character.\<close>

fun DVParse_step ::
  "ARMDebugger \<Rightarrow> DVParseState \<Rightarrow> uint32_t \<Rightarrow> char \<Rightarrow> DVParseState \<times> uint32_t" where
  "DVParse_step debugger PARSE_ROOT current token =
     (if token = CHR ''r'' then (PARSE_EXPECT_REGISTER, current)
      else if token = CHR ''p'' then (PARSE_EXPECT_PC, current)
      else if token = CHR ''s'' then (PARSE_EXPECT_SP, current)
      else if token = CHR ''l'' then (PARSE_EXPECT_LR, current)
      else if token \<in> set ''123456789'' then (PARSE_EXPECT_DECIMAL, char_diff token CHR ''0'')
      else if token = CHR ''0'' then (PARSE_EXPECT_PREFIX, current)
      else if token = CHR ''$'' then (PARSE_EXPECT_HEX, 0)
      else (PARSE_ERROR, current))"
| "DVParse_step debugger PARSE_EXPECT_LR current token =
     (if token = CHR ''r'' then (PARSE_EXPECT_SUFFIX, gprs (cpu debugger) ARM_LR)
      else (PARSE_ERROR, current))"
| "DVParse_step debugger PARSE_EXPECT_PC current token =
     (if token = CHR ''c'' then (PARSE_EXPECT_SUFFIX, gprs (cpu debugger) ARM_PC)
      else (PARSE_ERROR, current))"
| "DVParse_step debugger PARSE_EXPECT_SP current token =
     (if token = CHR ''p'' then (PARSE_EXPECT_SUFFIX, gprs (cpu debugger) ARM_SP)
      else (PARSE_ERROR, current))"
| "DVParse_step debugger PARSE_EXPECT_REGISTER current token =
     (if token \<in> set ''023456789''
      then (PARSE_EXPECT_SUFFIX, gprs (cpu debugger) (of_char token - of_char CHR ''0''))
      else if token = CHR ''1'' then (PARSE_EXPECT_REGISTER_2, current)
      else (PARSE_ERROR, current))"
| "DVParse_step debugger PARSE_EXPECT_REGISTER_2 current token =
     (if token \<in> set ''012345''
      then (PARSE_EXPECT_SUFFIX, gprs (cpu debugger) (of_char token - of_char CHR ''0'' + 10))
      else (PARSE_ERROR, current))"
| "DVParse_step debugger PARSE_EXPECT_DECIMAL current token =
     (if token \<in> set ''0123456789''
      then (PARSE_EXPECT_DECIMAL, current * 10 + char_diff token CHR ''0'')
      else (PARSE_ERROR, current))"
| "DVParse_step debugger PARSE_EXPECT_HEX current token =
     (if token \<in> set ''0123456789''
      then (PARSE_EXPECT_HEX, current * 16 + char_diff token CHR ''0'')
      else if token \<in> set ''ABCDEF''
      then (PARSE_EXPECT_HEX, current * 16 + char_diff token CHR ''A'' + 10)
      else if token \<in> set ''abcdef''
      then (PARSE_EXPECT_HEX, current * 16 + char_diff token CHR ''a'' + 10)
      else (PARSE_ERROR, current))"
| "DVParse_step debugger PARSE_EXPECT_PREFIX current token =
     (if token = CHR ''X'' \<or> token = CHR ''x'' then (PARSE_EXPECT_HEX, 0)
      else (PARSE_ERROR, current))"
| "DVParse_step debugger PARSE_EXPECT_SUFFIX current token = (PARSE_ERROR, current)"
| "DVParse_step debugger PARSE_ERROR current token = (PARSE_ERROR, current)"

text \<open>The \<open>while\<close> loop: it stops when the length is used up, at the terminator,
  at a space, or in the error state. It returns what is left of the string and of the
  length, the state and the accumulator.\<close>

fun DVParse_loop ::
  "ARMDebugger \<Rightarrow> string \<Rightarrow> size_t \<Rightarrow> DVParseState \<Rightarrow> uint32_t
     \<Rightarrow> string \<times> size_t \<times> DVParseState \<times> uint32_t" where
  "DVParse_loop debugger [] len pstate current = ([], len, pstate, current)"
| "DVParse_loop debugger (token # string) len pstate current =
     (if len > 0 \<and> token \<noteq> NUL \<and> token \<noteq> CHR '' '' \<and> pstate \<noteq> PARSE_ERROR
      then (case DVParse_step debugger pstate current token of
              (pstate', current') \<Rightarrow> DVParse_loop debugger string (len - 1) pstate' current')
      else (token # string, len, pstate, current))"

text \<open>\<open>_DVParse\<close>. The string is never the null pointer at its two call sites, so only
  the test \<open>length < 1\<close> remains of the first guard. The error node has \<open>next = 0\<close>;
  an integer node is a copy of \<open>dvTemp\<close> (type \<open>INT_TYPE\<close>, \<open>next = 0\<close>) and gets
  the parse of the rest as its \<open>next\<close> when the loop stopped at a space.\<close>

function DVParse :: "ARMDebugger \<Rightarrow> string \<Rightarrow> size_t \<Rightarrow> DebugVector list" where
  "DVParse debugger string len =
     (if len < 1 then []
      else (case DVParse_loop debugger string len PARSE_ROOT 0 of
              (string', len', pstate, current) \<Rightarrow>
                if pstate = PARSE_ERROR then [DV_ERROR]
                else DV_INT current #
                  (if peek string' = CHR '' '' then DVParse debugger (tl string') (len' - 1)
                   else [])))"
  by pat_completeness auto
termination
proof (relation "measure (\<lambda>(debugger, string, len). length string)")
  show "wf (measure (\<lambda>(debugger :: ARMDebugger, string :: string, len :: size_t). length string))"
    by simp
next
  fix debugger :: ARMDebugger and string :: string and len :: size_t
    and x y xa ya xb yb
  assume loop: "(x, y) = DVParse_loop debugger string len PARSE_ROOT 0"
    and space: "peek x = CHR '' ''"
  have shrink: "length (fst (DVParse_loop debugger s l p c)) \<le> length s" for s l p c
  proof (induction s arbitrary: l p c)
    case Nil
    show ?case by simp
  next
    case (Cons token s)
    show ?case
    proof (cases "l > 0 \<and> token \<noteq> NUL \<and> token \<noteq> CHR '' '' \<and> p \<noteq> PARSE_ERROR")
      case True
      obtain p' c' where "DVParse_step debugger p c token = (p', c')"
        by (cases "DVParse_step debugger p c token")
      with True Cons.IH [of "l - 1" p' c'] show ?thesis by simp
    next
      case False
      then show ?thesis by auto
    qed
  qed
  from loop have "x = fst (DVParse_loop debugger string len PARSE_ROOT 0)"
    by (metis fst_conv)
  with shrink [of string len PARSE_ROOT 0] have "length x \<le> length string"
    by simp
  moreover from space have "x \<noteq> []"
    by (auto simp: NUL_def)
  ultimately show "((debugger, tl x, xa - 1), debugger, string, len)
      \<in> measure (\<lambda>(debugger, string, len). length string)"
    by (cases x) auto
qed

declare DVParse.simps [simp del]

section \<open>The command handlers\<close>

definition ERROR_MISSING_ARGS :: string where
  "ERROR_MISSING_ARGS = ''Arguments missing''"

definition printPSR :: "PSR \<Rightarrow> ARMDebugger \<Rightarrow> ARMDebugger" where
  "printPSR psr debugger =
     printf (''%08X [%c%c%c%c%c%c%c]'' @ [NL])
       [ArgInt (packed psr),
        ArgChar (if psr_n psr then CHR ''N'' else CHR ''-''),
        ArgChar (if psr_z psr then CHR ''Z'' else CHR ''-''),
        ArgChar (if psr_c psr then CHR ''C'' else CHR ''-''),
        ArgChar (if psr_v psr then CHR ''V'' else CHR ''-''),
        ArgChar (if psr_i psr then CHR ''I'' else CHR ''-''),
        ArgChar (if psr_f psr then CHR ''F'' else CHR ''-''),
        ArgChar (if psr_t psr \<noteq> MODE_ARM then CHR ''T'' else CHR ''-'')]
       debugger"

text \<open>\<open>_breakInto\<close> raises \<open>SIGTRAP\<close> against the process with \<open>_handleDeath\<close>
  installed; with no host debugger attached the handler runs and prints its line.\<close>

definition handleDeath :: "ARMDebugger \<Rightarrow> ARMDebugger" where
  "handleDeath debugger = printf (''No debugger attached!'' @ [NL]) [] debugger"

definition breakInto :: "ARMDebugger \<Rightarrow> DebugVector list \<Rightarrow> ARMDebugger" where
  "breakInto debugger dv = handleDeath debugger"

definition continue :: "ARMDebugger \<Rightarrow> DebugVector list \<Rightarrow> ARMDebugger" where
  "continue debugger dv = debugger\<lparr>state := DEBUGGER_RUNNING\<rparr>"

text \<open>\<open>dv->intValue\<close> as \<open>_print\<close> and \<open>_printHex\<close> read it, whatever the tag.\<close>

fun intValue :: "DebugVector \<Rightarrow> printf_arg" where
  "intValue (DV_INT v) = ArgInt v"
| "intValue DV_ERROR = ArgIndeterminate"
| "intValue (DV_CHAR charValue) = ArgIndeterminate"

fun print_loop :: "string \<Rightarrow> ARMDebugger \<Rightarrow> DebugVector list \<Rightarrow> ARMDebugger" where
  "print_loop fmt debugger [] = debugger"
| "print_loop fmt debugger (dv # next) = print_loop fmt (printf fmt [intValue dv] debugger) next"

definition print :: "ARMDebugger \<Rightarrow> DebugVector list \<Rightarrow> ARMDebugger" where
  "print debugger dv = printf [NL] [] (print_loop '' %u'' debugger dv)"

definition printHex :: "ARMDebugger \<Rightarrow> DebugVector list \<Rightarrow> ARMDebugger" where
  "printHex debugger dv = printf [NL] [] (print_loop '' 0x%08X'' debugger dv)"

definition printLine ::
  "collaborators \<Rightarrow> ARMDebugger \<Rightarrow> uint32_t \<Rightarrow> ExecutionMode \<Rightarrow> ARMDebugger" where
  "printLine ext debugger address mode =
     (if mode = MODE_ARM
      then (case load32 ext debugger address of
              (instruction, debugger') \<Rightarrow> printf (''%08X'' @ [NL]) [ArgInt instruction] debugger')
      else (case loadU16 ext debugger address of
              (instruction, debugger') \<Rightarrow>
                printf (''%04X'' @ [NL]) [ArgInt (ucast instruction)] debugger'))"

definition instructionLength :: "ExecutionMode \<Rightarrow> uint32_t" where
  "instructionLength mode = (if mode = MODE_ARM then WORD_SIZE_ARM else WORD_SIZE_THUMB)"

fun printStatus_rows :: "ARMDebugger \<Rightarrow> nat list \<Rightarrow> ARMDebugger" where
  "printStatus_rows debugger [] = debugger"
| "printStatus_rows debugger (r # rs) =
     printStatus_rows
       (printf (''%08X %08X %08X %08X'' @ [NL])
          [ArgInt (gprs (cpu debugger) (r * 4)),
           ArgInt (gprs (cpu debugger) (r * 4 + 1)),
           ArgInt (gprs (cpu debugger) (r * 4 + 2)),
           ArgInt (gprs (cpu debugger) (r * 4 + 3))]
          debugger) rs"

definition printStatus :: "collaborators \<Rightarrow> ARMDebugger \<Rightarrow> DebugVector list \<Rightarrow> ARMDebugger" where
  "printStatus ext debugger dv =
     (let debugger1 = printStatus_rows debugger [0, 1, 2, 3];
          debugger2 = printPSR (cpsr (cpu debugger1)) debugger1;
          mode = psr_t (cpsr (cpu debugger2))
      in printLine ext debugger2 (gprs (cpu debugger2) ARM_PC - instructionLength mode) mode)"

definition next' :: "collaborators \<Rightarrow> ARMDebugger \<Rightarrow> DebugVector list \<Rightarrow> ARMDebugger" where
  "next' ext debugger dv = printStatus ext (ARMRun ext debugger) []"

definition quit :: "ARMDebugger \<Rightarrow> DebugVector list \<Rightarrow> ARMDebugger" where
  "quit debugger dv = debugger\<lparr>state := DEBUGGER_SHUTDOWN\<rparr>"

fun readByte :: "collaborators \<Rightarrow> ARMDebugger \<Rightarrow> DebugVector list \<Rightarrow> ARMDebugger" where
  "readByte ext debugger (DV_INT address # next) =
     (case loadU8 ext debugger address of
        (v, debugger') \<Rightarrow> printf ('' 0x%02X'' @ [NL]) [ArgInt (ucast v)] debugger')"
| "readByte ext debugger dv = printf (''%s'' @ [NL]) [ArgStr ERROR_MISSING_ARGS] debugger"

fun readHalfword :: "collaborators \<Rightarrow> ARMDebugger \<Rightarrow> DebugVector list \<Rightarrow> ARMDebugger" where
  "readHalfword ext debugger (DV_INT address # next) =
     (case loadU16 ext debugger address of
        (v, debugger') \<Rightarrow> printf ('' 0x%04X'' @ [NL]) [ArgInt (ucast v)] debugger')"
| "readHalfword ext debugger dv = printf (''%s'' @ [NL]) [ArgStr ERROR_MISSING_ARGS] debugger"

fun readWord :: "collaborators \<Rightarrow> ARMDebugger \<Rightarrow> DebugVector list \<Rightarrow> ARMDebugger" where
  "readWord ext debugger (DV_INT address # next) =
     (case load32 ext debugger address of
        (v, debugger') \<Rightarrow> printf ('' 0x%08X'' @ [NL]) [ArgInt v] debugger')"
| "readWord ext debugger dv = printf (''%s'' @ [NL]) [ArgStr ERROR_MISSING_ARGS] debugger"

text \<open>\<open>_setBreakpoint\<close>: the guard \<open>!dv || dv->type != INT_TYPE\<close> is the second
  equation; the first is the node of an integer, whose address goes to the head of the
  list.\<close>

fun setBreakpoint :: "ARMDebugger \<Rightarrow> DebugVector list \<Rightarrow> ARMDebugger" where
  "setBreakpoint debugger (DV_INT address # next) =
     debugger\<lparr>breakpoints := address # breakpoints debugger\<rparr>"
| "setBreakpoint debugger dv = printf (''%s'' @ [NL]) [ArgStr ERROR_MISSING_ARGS] debugger"

fun setWatchpoint :: "collaborators \<Rightarrow> ARMDebugger \<Rightarrow> DebugVector list \<Rightarrow> ARMDebugger" where
  "setWatchpoint ext debugger (DV_INT address # next) =
     (let debugger' =
            (if memory (cpu debugger) \<noteq> MemoryShim_d
             then ARMDebuggerInstallMemoryShim ext debugger else debugger)
      in debugger'\<lparr>memoryShim := (memoryShim debugger')
           \<lparr>watchpoints := address # watchpoints (memoryShim debugger')\<rparr>\<rparr>)"
| "setWatchpoint ext debugger dv = printf (''%s'' @ [NL]) [ArgStr ERROR_MISSING_ARGS] debugger"

text \<open>\<open>_checkBreakpoints\<close>: the scan of the list, left at the first match.\<close>

fun checkBreakpoints_scan :: "ARMDebugger \<Rightarrow> uint32_t \<Rightarrow> uint32_t list \<Rightarrow> ARMDebugger" where
  "checkBreakpoints_scan debugger len [] = debugger"
| "checkBreakpoints_scan debugger len (address # next) =
     (if address + len = gprs (cpu debugger) ARM_PC
      then printf (''Hit breakpoint'' @ [NL]) [] (debugger\<lparr>state := DEBUGGER_PAUSED\<rparr>)
      else checkBreakpoints_scan debugger len next)"

definition checkBreakpoints :: "ARMDebugger \<Rightarrow> ARMDebugger" where
  "checkBreakpoints debugger =
     checkBreakpoints_scan debugger (instructionLength (psr_t (cpsr (cpu debugger))))
       (breakpoints debugger)"

definition breakIntoDefault :: "ARMDebugger \<Rightarrow> ARMDebugger" where
  "breakIntoDefault activeDebugger = activeDebugger\<lparr>state := DEBUGGER_PAUSED\<rparr>"

section \<open>The command table and \<open>_parse\<close>\<close>

type_synonym DebuggerCommand = "collaborators \<Rightarrow> ARMDebugger \<Rightarrow> DebugVector list \<Rightarrow> ARMDebugger"

definition debuggerCommands :: "(string \<times> DebuggerCommand) list" where
  "debuggerCommands =
     [(''b'', \<lambda>ext. setBreakpoint),
      (''break'', \<lambda>ext. setBreakpoint),
      (''c'', \<lambda>ext. continue),
      (''continue'', \<lambda>ext. continue),
      (''i'', printStatus),
      (''info'', printStatus),
      (''n'', next'),
      (''next'', next'),
      (''p'', \<lambda>ext. print),
      (''p/x'', \<lambda>ext. printHex),
      (''print'', \<lambda>ext. print),
      (''print/x'', \<lambda>ext. printHex),
      (''q'', \<lambda>ext. quit),
      (''quit'', \<lambda>ext. quit),
      (''rb'', readByte),
      (''rh'', readHalfword),
      (''rw'', readWord),
      (''status'', printStatus),
      (''w'', setWatchpoint),
      (''watch'', setWatchpoint),
      (''x'', \<lambda>ext. breakInto)]"

text \<open>The C library on C strings, in the C locale: \<open>strlen\<close>, \<open>strchr\<close> (the
  offset of the first occurrence), \<open>tolower\<close> and \<open>strncasecmp\<close>.\<close>

definition strlen :: "string \<Rightarrow> size_t" where
  "strlen s = of_nat (length (takeWhile (\<lambda>c. c \<noteq> NUL) s))"

fun strchr :: "string \<Rightarrow> char \<Rightarrow> nat option" where
  "strchr [] c = (if c = NUL then Some 0 else None)"
| "strchr (x # s) c =
     (if x = c then Some 0 else if x = NUL then None else map_option Suc (strchr s c))"

definition tolower :: "char \<Rightarrow> char" where
  "tolower c =
     (if (65::nat) \<le> of_char c \<and> of_char c \<le> (90::nat) then char_of (of_char c + (32::nat))
      else c)"

fun strncasecmp :: "string \<Rightarrow> string \<Rightarrow> size_t \<Rightarrow> int" where
  "strncasecmp [] s2 n =
     (if n = 0 then 0 else int (of_char NUL) - int (of_char (tolower (peek s2))))"
| "strncasecmp (c1 # s1) s2 n =
     (if n = 0 then 0
      else if tolower c1 \<noteq> tolower (peek s2)
      then int (of_char (tolower c1)) - int (of_char (tolower (peek s2)))
      else if c1 = NUL then 0
      else strncasecmp s1 (tl s2) (n - 1))"

text \<open>The \<open>for\<close> loop of \<open>_parse\<close> over the table, and what follows it.\<close>

fun parse_lookup ::
  "collaborators \<Rightarrow> ARMDebugger \<Rightarrow> string \<Rightarrow> size_t \<Rightarrow> DebugVector list
     \<Rightarrow> (string \<times> DebuggerCommand) list \<Rightarrow> ARMDebugger \<times> int" where
  "parse_lookup ext debugger line cmdLength dv [] =
     (printf (''Command not found'' @ [NL]) [] debugger, 0)"
| "parse_lookup ext debugger line cmdLength dv ((name, command) # table) =
     (if strlen name \<noteq> cmdLength then parse_lookup ext debugger line cmdLength dv table
      else if strncasecmp name line cmdLength = 0 then (command ext debugger dv, 1)
      else parse_lookup ext debugger line cmdLength dv table)"

definition parse :: "collaborators \<Rightarrow> ARMDebugger \<Rightarrow> string \<Rightarrow> size_t \<Rightarrow> ARMDebugger \<times> int" where
  "parse ext debugger line count =
     (case strchr line CHR '' '' of
        Some firstSpace \<Rightarrow>
          (let cmdLength = of_nat firstSpace;
               dv = DVParse debugger (drop (firstSpace + 1) line) (count - cmdLength - 1)
           in if dv \<noteq> [] \<and> type (hd dv) = ERROR_TYPE
              then (printf (''Parse error'' @ [NL]) [] debugger, 0)
              else parse_lookup ext debugger line cmdLength dv debuggerCommands)
      | None \<Rightarrow> parse_lookup ext debugger line count [] debuggerCommands)"

section \<open>The REPL \<open>_commandLine\<close>\<close>

text \<open>Modelled from the spec: the line editor and its history are a library outside
  the sources. The history is bounded to 200 entries (\<open>H_SETSIZE\<close>), \<open>H_ENTER\<close> adds
  the newest entry, \<open>H_FIRST\<close> gives the newest entry and fails on an empty history.
  The input is the list of the lines still to come, each as typed, with its newline;
  \<open>el_gets\<close> gives the next line and the number of its characters, and the null pointer
  when nothing was read: at an entry without characters and at the end of the input.\<close>

definition history_H_ENTER :: "string list \<Rightarrow> string \<Rightarrow> string list" where
  "history_H_ENTER h line = take 200 (line # h)"

fun history_H_FIRST :: "string list \<Rightarrow> string option" where
  "history_H_FIRST [] = None"
| "history_H_FIRST (str # h) = Some str"

fun el_gets :: "string list \<Rightarrow> (string \<times> int) option \<times> string list" where
  "el_gets [] = (None, [])"
| "el_gets (line # input) =
     (if line = [] then (None, input) else (Some (line, int (length line)), input))"

text \<open>The \<open>while\<close> loop of \<open>_commandLine\<close>: one line of the input each time round.\<close>

fun commandLine_step ::
  "collaborators \<Rightarrow> ARMDebugger \<Rightarrow> string \<Rightarrow> int \<Rightarrow> ARMDebugger" where
  "commandLine_step ext debugger line count =
     (if peek line = NL
      then (case history_H_FIRST (histate debugger) of
              Some str \<Rightarrow> fst (parse ext debugger str (strlen str - 1))
            | None \<Rightarrow> debugger)
      else (case parse ext debugger line (of_int (count - 1)) of
              (debugger', r) \<Rightarrow>
                if r \<noteq> 0
                then debugger'\<lparr>histate := history_H_ENTER (histate debugger') line\<rparr>
                else debugger'))"

fun commandLine_loop ::
  "collaborators \<Rightarrow> ARMDebugger \<Rightarrow> string list \<Rightarrow> ARMDebugger \<times> string list" where
  "commandLine_loop ext debugger [] =
     (if state debugger = DEBUGGER_PAUSED
      then (debugger\<lparr>state := DEBUGGER_EXITING\<rparr>, [])
      else (debugger, []))"
| "commandLine_loop ext debugger (l # input) =
     (if state debugger = DEBUGGER_PAUSED
      then (case el_gets (l # input) of
              (None, input') \<Rightarrow> (debugger\<lparr>state := DEBUGGER_EXITING\<rparr>, input')
            | (Some (line, count), input') \<Rightarrow>
                commandLine_loop ext (commandLine_step ext debugger line count) input)
      else (debugger, l # input))"

definition commandLine ::
  "collaborators \<Rightarrow> ARMDebugger \<Rightarrow> string list \<Rightarrow> ARMDebugger \<times> string list" where
  "commandLine ext debugger input = commandLine_loop ext (printStatus ext debugger []) input"

section \<open>The life cycle: \<open>ARMDebuggerInit\<close>, \<open>ARMDebuggerRun\<close>, \<open>ARMDebuggerEnter\<close>\<close>

definition ARMDebuggerInit :: "ARMDebugger \<Rightarrow> ARMCore \<Rightarrow> ARMDebugger" where
  "ARMDebuggerInit debugger cpu' =
     debugger\<lparr>cpu := cpu', state := DEBUGGER_PAUSED, breakpoints := [], histate := [],
       memoryShim := (memoryShim debugger)\<lparr>watchpoints := []\<rparr>\<rparr>"

definition ARMDebuggerEnter :: "ARMDebugger \<Rightarrow> ARMDebugger" where
  "ARMDebuggerEnter debugger = debugger\<lparr>state := DEBUGGER_PAUSED\<rparr>"

text \<open>The two inner loops of \<open>ARMDebuggerRun\<close>. They may run for ever, so they take
  fuel: the number of CPU steps allowed; \<open>None\<close> is the fuel used up with the state
  still Running.\<close>

fun ARMDebuggerRun_free :: "collaborators \<Rightarrow> nat \<Rightarrow> ARMDebugger \<Rightarrow> ARMDebugger option" where
  "ARMDebuggerRun_free ext 0 debugger =
     (if state debugger = DEBUGGER_RUNNING then None else Some debugger)"
| "ARMDebuggerRun_free ext (Suc fuel) debugger =
     (if state debugger = DEBUGGER_RUNNING
      then ARMDebuggerRun_free ext fuel (ARMRun ext debugger)
      else Some debugger)"

fun ARMDebuggerRun_checked :: "collaborators \<Rightarrow> nat \<Rightarrow> ARMDebugger \<Rightarrow> ARMDebugger option" where
  "ARMDebuggerRun_checked ext 0 debugger =
     (if state debugger = DEBUGGER_RUNNING then None else Some debugger)"
| "ARMDebuggerRun_checked ext (Suc fuel) debugger =
     (if state debugger = DEBUGGER_RUNNING
      then ARMDebuggerRun_checked ext fuel (checkBreakpoints (ARMRun ext debugger))
      else Some debugger)"

text \<open>The outer loop \<open>while (debugger->state < DEBUGGER_EXITING)\<close>. The fuel bounds
  the number of times round it and the steps of each inner loop.\<close>

fun ARMDebuggerRun_loop ::
  "collaborators \<Rightarrow> nat \<Rightarrow> ARMDebugger \<Rightarrow> string list \<Rightarrow> (ARMDebugger \<times> string list) option" where
  "ARMDebuggerRun_loop ext 0 debugger input =
     (if DebuggerState_val (state debugger) < DebuggerState_val DEBUGGER_EXITING then None
      else Some (debugger, input))"
| "ARMDebuggerRun_loop ext (Suc fuel) debugger input =
     (if DebuggerState_val (state debugger) < DebuggerState_val DEBUGGER_EXITING
      then (case (if breakpoints debugger = []
                  then ARMDebuggerRun_free ext fuel debugger
                  else ARMDebuggerRun_checked ext fuel debugger) of
              None \<Rightarrow> None
            | Some debugger' \<Rightarrow>
                (case state debugger' of
                   DEBUGGER_RUNNING \<Rightarrow> ARMDebuggerRun_loop ext fuel debugger' input
                 | DEBUGGER_PAUSED \<Rightarrow>
                     (case commandLine ext debugger' input of
                        (debugger'', input') \<Rightarrow> ARMDebuggerRun_loop ext fuel debugger'' input')
                 | DEBUGGER_EXITING \<Rightarrow> Some (debugger', input)
                 | DEBUGGER_SHUTDOWN \<Rightarrow> Some (debugger', input)))
      else Some (debugger, input))"

definition ARMDebuggerRun ::
  "collaborators \<Rightarrow> nat \<Rightarrow> ARMDebugger \<Rightarrow> string list \<Rightarrow> (ARMDebugger \<times> string list) option" where
  "ARMDebuggerRun ext fuel debugger input =
     ARMDebuggerRun_loop ext fuel
       (if state debugger = DEBUGGER_EXITING then debugger\<lparr>state := DEBUGGER_RUNNING\<rparr>
        else debugger) input"

section \<open>The spec's side: the value of a literal, and sample inputs\<close>

text \<open>The value of a decimal and of a hexadecimal literal as the spec reads them: the
  mathematical value of the digit string, a natural number without a bound.\<close>

definition digit_value :: "char \<Rightarrow> nat" where
  "digit_value c = of_char c - 48"

definition decimal_value :: "string \<Rightarrow> nat" where
  "decimal_value ds = foldl (\<lambda>n c. n * 10 + digit_value c) 0 ds"

definition hex_digits :: "char set" where
  "hex_digits = set ''0123456789'' \<union> set ''ABCDEF'' \<union> set ''abcdef''"

definition hex_digit_value :: "char \<Rightarrow> nat" where
  "hex_digit_value c =
     (if c \<in> set ''0123456789'' then of_char c - 48
      else if c \<in> set ''ABCDEF'' then of_char c - 55
      else of_char c - 87)"

definition hex_value :: "string \<Rightarrow> nat" where
  "hex_value hs = foldl (\<lambda>n c. n * 16 + hex_digit_value c) 0 hs"

text \<open>Modelled from the spec: \<open>memory-debugger.c\<close> is not among the sources. Installing
  the interception layer swaps the CPU's active memory interface to the shim.\<close>

definition InstallMemoryShim_spec :: "ARMDebugger \<Rightarrow> ARMDebugger" where
  "InstallMemoryShim_spec debugger = debugger\<lparr>cpu := (cpu debugger)\<lparr>memory := MemoryShim_d\<rparr>\<rparr>"

text \<open>A controller, a CPU and collaborators to evaluate the model on: register \<open>r\<close>
  holds \<open>0x1000 + r\<close>, the CPU is in ARM mode, a step advances the program counter by
  one ARM instruction, and a load returns the address it was given.\<close>

definition sample_cpu :: ARMCore where
  "sample_cpu =
     \<lparr>gprs = (\<lambda>r. 0x1000 + of_nat r),
      cpsr = \<lparr>packed = 0, psr_n = False, psr_z = False, psr_c = False, psr_v = False,
               psr_i = False, psr_f = False, psr_t = MODE_ARM\<rparr>,
      memory = Memory_at 0\<rparr>"

definition sample_debugger :: ARMDebugger where
  "sample_debugger =
     \<lparr>state = DEBUGGER_PAUSED, cpu = sample_cpu, breakpoints = [],
      memoryShim = \<lparr>watchpoints = []\<rparr>, histate = [], stdout = []\<rparr>"

definition sample_step :: "ARMDebugger \<Rightarrow> ARMDebugger" where
  "sample_step debugger =
     debugger\<lparr>cpu := (cpu debugger)
       \<lparr>gprs := (gprs (cpu debugger))(ARM_PC := gprs (cpu debugger) ARM_PC + 4)\<rparr>\<rparr>"

definition sample_ext :: collaborators where
  "sample_ext =
     \<lparr>ARMRun = sample_step,
      load32 = (\<lambda>debugger address. (address, debugger)),
      loadU16 = (\<lambda>debugger address. (ucast address, debugger)),
      loadU8 = (\<lambda>debugger address. (ucast address, debugger)),
      ARMDebuggerInstallMemoryShim = InstallMemoryShim_spec\<rparr>"

section \<open>Lemmas about the parser\<close>

lemma DVParse_0: "DVParse debugger string 0 = []"
  by (simp add: DVParse.simps)

lemma DVParse_unfold:
  "len \<noteq> 0 \<Longrightarrow>
   DVParse debugger string len =
     (let r = DVParse_loop debugger string len PARSE_ROOT 0
      in if fst (snd (snd r)) = PARSE_ERROR then [DV_ERROR]
         else DV_INT (snd (snd (snd r))) #
           (if peek (fst r) = CHR '' '' then DVParse debugger (tl (fst r)) (fst (snd r) - 1)
            else []))"
  by (subst DVParse.simps) (simp add: split_def Let_def)

lemmas DVParse_eval = DVParse_0 DVParse_unfold Let_def NUL_def NL_def char_diff_def

lemma size_t_pred: "length (c # s) \<le> unat (len :: size_t) \<Longrightarrow> len \<noteq> 0 \<and> length s \<le> unat (len - 1)"
proof -
  assume a: "length (c # s) \<le> unat len"
  then have nz: "len \<noteq> 0" by (auto simp: unat_eq_0)
  then have "unat (len - 1) = unat len - 1" by (rule unat_minus_one)
  with a nz show ?thesis by simp
qed

lemma decimal_digit_diff:
  "c \<in> set ''0123456789'' \<Longrightarrow> char_diff c CHR ''0'' = of_nat (digit_value c)"
  by (auto simp: char_diff_def digit_value_def)

lemma hex_digit_diff:
  "c \<in> set ''0123456789'' \<Longrightarrow> char_diff c CHR ''0'' = of_nat (hex_digit_value c)"
  "c \<in> set ''ABCDEF'' \<Longrightarrow> char_diff c CHR ''A'' + 10 = of_nat (hex_digit_value c)"
  "c \<in> set ''abcdef'' \<Longrightarrow> char_diff c CHR ''a'' + 10 = of_nat (hex_digit_value c)"
  by (simp, elim disjE; simp add: char_diff_def hex_digit_value_def)+

lemma DVParse_loop_stop:
  "len = 0 \<or> peek rest = NUL \<or> peek rest = CHR '' '' \<Longrightarrow>
   DVParse_loop debugger rest len pstate current = (rest, len, pstate, current)"
  by (cases rest) auto

lemma DVParse_loop_decimal:
  "\<forall>c\<in>set ds. c \<in> set ''0123456789'' \<Longrightarrow> length ds \<le> unat len \<Longrightarrow>
   DVParse_loop debugger (ds @ rest) len PARSE_EXPECT_DECIMAL (of_nat n) =
     DVParse_loop debugger rest (len - of_nat (length ds)) PARSE_EXPECT_DECIMAL
       (of_nat (foldl (\<lambda>n c. n * 10 + digit_value c) n ds))"
proof (induction ds arbitrary: len n)
  case Nil
  then show ?case by simp
next
  case (Cons c ds)
  have len: "len \<noteq> 0" "length ds \<le> unat (len - 1)"
    using size_t_pred [OF Cons.prems(2)] by simp_all
  from Cons.prems(1) have c: "c \<in> set ''0123456789''" and ds: "\<forall>c\<in>set ds. c \<in> set ''0123456789''"
    by simp_all
  from c have c': "c \<noteq> NUL" "c \<noteq> CHR '' ''" by (auto simp: NUL_def)
  have step: "DVParse_step debugger PARSE_EXPECT_DECIMAL (of_nat n) c =
      (PARSE_EXPECT_DECIMAL, of_nat (n * 10 + digit_value c))"
    using c decimal_digit_diff [OF c] by simp
  have "DVParse_loop debugger ((c # ds) @ rest) len PARSE_EXPECT_DECIMAL (of_nat n) =
      DVParse_loop debugger (ds @ rest) (len - 1) PARSE_EXPECT_DECIMAL
        (of_nat (n * 10 + digit_value c))"
    using len(1) c' step by (simp add: word_greater_zero_iff)
  also have "\<dots> = DVParse_loop debugger rest (len - 1 - of_nat (length ds)) PARSE_EXPECT_DECIMAL
      (of_nat (foldl (\<lambda>n c. n * 10 + digit_value c) (n * 10 + digit_value c) ds))"
    by (rule Cons.IH [OF ds len(2)])
  finally show ?case by (simp add: diff_diff_eq add.commute)
qed

lemma DVParse_step_hex:
  assumes "c \<in> hex_digits"
  shows "DVParse_step debugger PARSE_EXPECT_HEX current c =
    (PARSE_EXPECT_HEX, current * 16 + of_nat (hex_digit_value c))"
proof -
  from assms consider "c \<in> set ''0123456789''" | "c \<in> set ''ABCDEF''" | "c \<in> set ''abcdef''"
    unfolding hex_digits_def by blast
  then show ?thesis
  proof cases
    case 1
    then show ?thesis using hex_digit_diff(1) [OF 1] by simp
  next
    case 2
    then have "c \<notin> set ''0123456789''" by auto
    with 2 show ?thesis using hex_digit_diff(2) [OF 2] by (simp add: add.assoc)
  next
    case 3
    then have "c \<notin> set ''0123456789''" "c \<notin> set ''ABCDEF''" by auto
    with 3 show ?thesis using hex_digit_diff(3) [OF 3] by (simp add: add.assoc)
  qed
qed

lemma DVParse_step_hex_reject:
  "c \<notin> hex_digits \<Longrightarrow> DVParse_step debugger PARSE_EXPECT_HEX current c = (PARSE_ERROR, current)"
  unfolding hex_digits_def by simp

lemma DVParse_step_decimal:
  "c \<in> set ''0123456789'' \<Longrightarrow>
   DVParse_step debugger PARSE_EXPECT_DECIMAL current c =
     (PARSE_EXPECT_DECIMAL, current * 10 + of_nat (digit_value c))"
  using decimal_digit_diff [of c] by simp

lemma DVParse_loop_hex:
  "\<forall>c\<in>set hs. c \<in> hex_digits \<Longrightarrow> length hs \<le> unat len \<Longrightarrow>
   DVParse_loop debugger (hs @ rest) len PARSE_EXPECT_HEX (of_nat n) =
     DVParse_loop debugger rest (len - of_nat (length hs)) PARSE_EXPECT_HEX
       (of_nat (foldl (\<lambda>n c. n * 16 + hex_digit_value c) n hs))"
proof (induction hs arbitrary: len n)
  case Nil
  then show ?case by simp
next
  case (Cons c hs)
  have len: "len \<noteq> 0" "length hs \<le> unat (len - 1)"
    using size_t_pred [OF Cons.prems(2)] by simp_all
  from Cons.prems(1) have c: "c \<in> hex_digits" and hs: "\<forall>c\<in>set hs. c \<in> hex_digits"
    by simp_all
  from c have c': "c \<noteq> NUL" "c \<noteq> CHR '' ''"
    by (auto simp: hex_digits_def NUL_def)
  have step: "DVParse_step debugger PARSE_EXPECT_HEX (of_nat n) c =
      (PARSE_EXPECT_HEX, of_nat (n * 16 + hex_digit_value c))"
    using DVParse_step_hex [OF c, of debugger "of_nat n"] by simp
  have "DVParse_loop debugger ((c # hs) @ rest) len PARSE_EXPECT_HEX (of_nat n) =
      DVParse_loop debugger (hs @ rest) (len - 1) PARSE_EXPECT_HEX
        (of_nat (n * 16 + hex_digit_value c))"
    using len(1) c' step by (simp add: word_greater_zero_iff)
  also have "\<dots> = DVParse_loop debugger rest (len - 1 - of_nat (length hs)) PARSE_EXPECT_HEX
      (of_nat (foldl (\<lambda>n c. n * 16 + hex_digit_value c) (n * 16 + hex_digit_value c) hs))"
    by (rule Cons.IH [OF hs len(2)])
  finally show ?case by (simp add: diff_diff_eq add.commute)
qed

text \<open>Where a token ends: the length given to the parser is used up exactly at its end,
  or the next character is the terminator or a space.\<close>

lemma token_end_stop:
  assumes "length token \<le> unat (len :: size_t)"
    and "length token = unat len \<or> peek rest = NUL \<or> peek rest = CHR '' ''"
  shows "len - of_nat (length token) = 0 \<or> peek rest = NUL \<or> peek rest = CHR '' ''"
  using assms by auto

lemma DVParse_token:
  assumes "len \<noteq> 0"
    and "DVParse_loop debugger string len PARSE_ROOT 0 = (rest, len', pstate, current)"
    and "pstate \<noteq> PARSE_ERROR"
  shows "DVParse debugger string len =
    DV_INT current # (if peek rest = CHR '' '' then DVParse debugger (tl rest) (len' - 1) else [])"
  using assms by (simp add: DVParse_unfold)

lemma DVParse_decimal:
  assumes first: "c \<in> set ''123456789''"
    and digits: "\<forall>c\<in>set ds. c \<in> set ''0123456789''"
    and len: "length (c # ds) \<le> unat len"
    and stop: "length (c # ds) = unat len \<or> peek rest = NUL \<or> peek rest = CHR '' ''"
  shows "DVParse debugger ((c # ds) @ rest) len =
    DV_INT (of_nat (decimal_value (c # ds))) #
      (if peek rest = CHR '' '' then DVParse debugger (tl rest) (len - of_nat (length (c # ds)) - 1)
       else [])"
proof -
  have l: "len \<noteq> 0" "length ds \<le> unat (len - 1)"
    using size_t_pred [OF len] by simp_all
  from first have c: "c \<in> set ''0123456789''" "c \<noteq> NUL" "c \<noteq> CHR '' ''" "c \<noteq> CHR ''r''"
    "c \<noteq> CHR ''p''" "c \<noteq> CHR ''s''" "c \<noteq> CHR ''l''"
    by (auto simp: NUL_def)
  have "DVParse_step debugger PARSE_ROOT 0 c = (PARSE_EXPECT_DECIMAL, of_nat (digit_value c))"
    using c first decimal_digit_diff [OF c(1)] by simp
  then have "DVParse_loop debugger ((c # ds) @ rest) len PARSE_ROOT 0 =
      DVParse_loop debugger (ds @ rest) (len - 1) PARSE_EXPECT_DECIMAL (of_nat (digit_value c))"
    using l(1) c(2,3) by (simp add: word_greater_zero_iff)
  also have "\<dots> = DVParse_loop debugger rest (len - 1 - of_nat (length ds)) PARSE_EXPECT_DECIMAL
      (of_nat (foldl (\<lambda>n c. n * 10 + digit_value c) (digit_value c) ds))"
    by (rule DVParse_loop_decimal [OF digits l(2)])
  also have "len - 1 - of_nat (length ds) = len - of_nat (length (c # ds))"
    by (simp add: diff_diff_eq add.commute)
  also have "DVParse_loop debugger rest (len - of_nat (length (c # ds))) PARSE_EXPECT_DECIMAL
      (of_nat (foldl (\<lambda>n c. n * 10 + digit_value c) (digit_value c) ds)) =
    (rest, len - of_nat (length (c # ds)), PARSE_EXPECT_DECIMAL,
      of_nat (foldl (\<lambda>n c. n * 10 + digit_value c) (digit_value c) ds))"
    by (rule DVParse_loop_stop [OF token_end_stop [OF len stop]])
  finally have loop: "DVParse_loop debugger ((c # ds) @ rest) len PARSE_ROOT 0 =
    (rest, len - of_nat (length (c # ds)), PARSE_EXPECT_DECIMAL,
      of_nat (foldl (\<lambda>n c. n * 10 + digit_value c) (digit_value c) ds))" .
  show ?thesis
    using DVParse_token [OF l(1) loop] by (simp add: decimal_value_def)
qed

lemma DVParse_dollar:
  assumes digits: "\<forall>c\<in>set hs. c \<in> hex_digits"
    and len: "length (CHR ''$'' # hs) \<le> unat len"
    and stop: "length (CHR ''$'' # hs) = unat len \<or> peek rest = NUL \<or> peek rest = CHR '' ''"
  shows "DVParse debugger ((CHR ''$'' # hs) @ rest) len =
    DV_INT (of_nat (hex_value hs)) #
      (if peek rest = CHR '' ''
       then DVParse debugger (tl rest) (len - of_nat (length (CHR ''$'' # hs)) - 1)
       else [])"
proof -
  have l: "len \<noteq> 0" "length hs \<le> unat (len - 1)"
    using size_t_pred [OF len] by simp_all
  have "DVParse_loop debugger ((CHR ''$'' # hs) @ rest) len PARSE_ROOT 0 =
      DVParse_loop debugger (hs @ rest) (len - 1) PARSE_EXPECT_HEX (of_nat 0)"
    using l(1) by (simp add: word_greater_zero_iff NUL_def)
  also have "\<dots> = DVParse_loop debugger rest (len - 1 - of_nat (length hs)) PARSE_EXPECT_HEX
      (of_nat (foldl (\<lambda>n c. n * 16 + hex_digit_value c) 0 hs))"
    by (rule DVParse_loop_hex [OF digits l(2)])
  also have "len - 1 - of_nat (length hs) = len - of_nat (length (CHR ''$'' # hs))"
    by (simp add: diff_diff_eq add.commute)
  also have "DVParse_loop debugger rest (len - of_nat (length (CHR ''$'' # hs))) PARSE_EXPECT_HEX
      (of_nat (foldl (\<lambda>n c. n * 16 + hex_digit_value c) 0 hs)) =
    (rest, len - of_nat (length (CHR ''$'' # hs)), PARSE_EXPECT_HEX,
      of_nat (foldl (\<lambda>n c. n * 16 + hex_digit_value c) 0 hs))"
    by (rule DVParse_loop_stop [OF token_end_stop [OF len stop]])
  finally have loop: "DVParse_loop debugger ((CHR ''$'' # hs) @ rest) len PARSE_ROOT 0 =
    (rest, len - of_nat (length (CHR ''$'' # hs)), PARSE_EXPECT_HEX,
      of_nat (foldl (\<lambda>n c. n * 16 + hex_digit_value c) 0 hs))" .
  show ?thesis
    using DVParse_token [OF l(1) loop] by (simp add: hex_value_def)
qed

lemma DVParse_0x:
  assumes x: "x = CHR ''x'' \<or> x = CHR ''X''"
    and digits: "\<forall>c\<in>set hs. c \<in> hex_digits"
    and len: "length (CHR ''0'' # x # hs) \<le> unat len"
    and stop: "length (CHR ''0'' # x # hs) = unat len \<or> peek rest = NUL \<or> peek rest = CHR '' ''"
  shows "DVParse debugger ((CHR ''0'' # x # hs) @ rest) len =
    DV_INT (of_nat (hex_value hs)) #
      (if peek rest = CHR '' ''
       then DVParse debugger (tl rest) (len - of_nat (length (CHR ''0'' # x # hs)) - 1)
       else [])"
proof -
  have l: "len \<noteq> 0" "length (x # hs) \<le> unat (len - 1)"
    using size_t_pred [OF len] by simp_all
  have l': "len - 1 \<noteq> 0" "length hs \<le> unat (len - 1 - 1)"
    using size_t_pred [OF l(2)] by simp_all
  have x': "x \<noteq> NUL" "x \<noteq> CHR '' ''"
    using x by (auto simp: NUL_def)
  have "DVParse_step debugger PARSE_EXPECT_PREFIX 0 x = (PARSE_EXPECT_HEX, 0)"
    using x by auto
  then have prefix: "DVParse_loop debugger ((x # hs) @ rest) (len - 1) PARSE_EXPECT_PREFIX 0 =
      DVParse_loop debugger (hs @ rest) (len - 1 - 1) PARSE_EXPECT_HEX (of_nat 0)"
    using l'(1) x' by (simp add: word_greater_zero_iff)
  have "DVParse_loop debugger ((CHR ''0'' # x # hs) @ rest) len PARSE_ROOT 0 =
      DVParse_loop debugger ((x # hs) @ rest) (len - 1) PARSE_EXPECT_PREFIX 0"
    using l(1) by (simp add: word_greater_zero_iff NUL_def)
  also note prefix
  also have "DVParse_loop debugger (hs @ rest) (len - 1 - 1) PARSE_EXPECT_HEX (of_nat 0) =
      DVParse_loop debugger rest (len - 1 - 1 - of_nat (length hs)) PARSE_EXPECT_HEX
        (of_nat (foldl (\<lambda>n c. n * 16 + hex_digit_value c) 0 hs))"
    by (rule DVParse_loop_hex [OF digits l'(2)])
  also have "len - 1 - 1 - of_nat (length hs) = len - of_nat (length (CHR ''0'' # x # hs))"
    by (simp add: diff_diff_eq add.commute)
  also have "DVParse_loop debugger rest (len - of_nat (length (CHR ''0'' # x # hs))) PARSE_EXPECT_HEX
      (of_nat (foldl (\<lambda>n c. n * 16 + hex_digit_value c) 0 hs)) =
    (rest, len - of_nat (length (CHR ''0'' # x # hs)), PARSE_EXPECT_HEX,
      of_nat (foldl (\<lambda>n c. n * 16 + hex_digit_value c) 0 hs))"
    by (rule DVParse_loop_stop [OF token_end_stop [OF len stop]])
  finally have loop: "DVParse_loop debugger ((CHR ''0'' # x # hs) @ rest) len PARSE_ROOT 0 =
    (rest, len - of_nat (length (CHR ''0'' # x # hs)), PARSE_EXPECT_HEX,
      of_nat (foldl (\<lambda>n c. n * 16 + hex_digit_value c) 0 hs))" .
  show ?thesis
    using DVParse_token [OF l(1) loop] by (simp add: hex_value_def)
qed

lemma DVParse_loop_error:
  "DVParse_loop debugger string len PARSE_ERROR current = (string, len, PARSE_ERROR, current)"
  by (cases string) simp_all

lemma DVParse_loop_hex_reject:
  "\<forall>x\<in>set t. x \<noteq> NUL \<and> x \<noteq> CHR '' '' \<Longrightarrow> length t \<le> unat len \<Longrightarrow>
   \<exists>x\<in>set t. x \<notin> hex_digits \<Longrightarrow>
   fst (snd (snd (DVParse_loop debugger (t @ rest) len PARSE_EXPECT_HEX current))) = PARSE_ERROR"
proof (induction t arbitrary: len current)
  case Nil
  then show ?case by simp
next
  case (Cons c t)
  have len: "len \<noteq> 0" "length t \<le> unat (len - 1)"
    using size_t_pred [OF Cons.prems(2)] by simp_all
  from Cons.prems(1) have c: "c \<noteq> NUL" "c \<noteq> CHR '' ''"
    and t: "\<forall>x\<in>set t. x \<noteq> NUL \<and> x \<noteq> CHR '' ''"
    by simp_all
  show ?case
  proof (cases "c \<in> hex_digits")
    case True
    with Cons.prems(3) have bad: "\<exists>x\<in>set t. x \<notin> hex_digits" by auto
    have "DVParse_loop debugger ((c # t) @ rest) len PARSE_EXPECT_HEX current =
        DVParse_loop debugger (t @ rest) (len - 1) PARSE_EXPECT_HEX
          (current * 16 + of_nat (hex_digit_value c))"
      using len(1) c DVParse_step_hex [OF True] by (simp add: word_greater_zero_iff)
    with Cons.IH [OF t len(2) bad] show ?thesis by simp
  next
    case False
    have "DVParse_loop debugger ((c # t) @ rest) len PARSE_EXPECT_HEX current =
        DVParse_loop debugger (t @ rest) (len - 1) PARSE_ERROR current"
      using len(1) c DVParse_step_hex_reject [OF False] by (simp add: word_greater_zero_iff)
    then show ?thesis by (simp add: DVParse_loop_error)
  qed
qed

lemma DVParse_leading_zero_reject:
  assumes t: "t \<noteq> []"
    and chars: "\<forall>x\<in>set t. x \<noteq> NUL \<and> x \<noteq> CHR '' ''"
    and len: "length (CHR ''0'' # t) \<le> unat len"
    and nohex: "\<not> ((hd t = CHR ''x'' \<or> hd t = CHR ''X'') \<and> (\<forall>x\<in>set (tl t). x \<in> hex_digits))"
  shows "DVParse debugger ((CHR ''0'' # t) @ rest) len = [DV_ERROR]"
proof -
  from t obtain c t' where tc: "t = c # t'" by (cases t) auto
  have l: "len \<noteq> 0" "length (c # t') \<le> unat (len - 1)"
    using size_t_pred [OF len] tc by simp_all
  have l': "len - 1 \<noteq> 0" "length t' \<le> unat (len - 1 - 1)"
    using size_t_pred [OF l(2)] by simp_all
  from chars tc have c: "c \<noteq> NUL" "c \<noteq> CHR '' ''"
    and t': "\<forall>x\<in>set t'. x \<noteq> NUL \<and> x \<noteq> CHR '' ''"
    by simp_all
  have root: "DVParse_loop debugger ((CHR ''0'' # t) @ rest) len PARSE_ROOT 0 =
      DVParse_loop debugger ((c # t') @ rest) (len - 1) PARSE_EXPECT_PREFIX 0"
    using l(1) tc by (simp add: word_greater_zero_iff NUL_def)
  have "fst (snd (snd (DVParse_loop debugger ((c # t') @ rest) (len - 1) PARSE_EXPECT_PREFIX 0))) =
      PARSE_ERROR"
  proof (cases "c = CHR ''x'' \<or> c = CHR ''X''")
    case True
    with nohex tc have bad: "\<exists>x\<in>set t'. x \<notin> hex_digits" by auto
    have "DVParse_step debugger PARSE_EXPECT_PREFIX 0 c = (PARSE_EXPECT_HEX, 0)"
      using True by auto
    then have "DVParse_loop debugger ((c # t') @ rest) (len - 1) PARSE_EXPECT_PREFIX 0 =
        DVParse_loop debugger (t' @ rest) (len - 1 - 1) PARSE_EXPECT_HEX 0"
      using l'(1) c by (simp add: word_greater_zero_iff)
    with DVParse_loop_hex_reject [OF t' l'(2) bad] show ?thesis by simp
  next
    case False
    then have "DVParse_step debugger PARSE_EXPECT_PREFIX 0 c = (PARSE_ERROR, 0)"
      by auto
    then have "DVParse_loop debugger ((c # t') @ rest) (len - 1) PARSE_EXPECT_PREFIX 0 =
        DVParse_loop debugger (t' @ rest) (len - 1 - 1) PARSE_ERROR 0"
      using l'(1) c by (simp add: word_greater_zero_iff)
    then show ?thesis by (simp add: DVParse_loop_error)
  qed
  with root
  have "fst (snd (snd (DVParse_loop debugger ((CHR ''0'' # t) @ rest) len PARSE_ROOT 0))) =
      PARSE_ERROR"
    by simp
  with l(1) show ?thesis by (simp add: DVParse_unfold)
qed

text \<open>The command line \<open>name\<close>, a space, \<open>arg\<close>: \<open>strchr\<close> finds that space, and when
  the head of the parsed argument list is an error node, \<open>_parse\<close> prints \<open>Parse error\<close>
  and returns 0 without looking at the table.\<close>

lemma strchr_first_space:
  "\<forall>c\<in>set name. c \<noteq> CHR '' '' \<and> c \<noteq> NUL \<Longrightarrow>
   strchr (name @ CHR '' '' # arg) CHR '' '' = Some (length name)"
  by (induction name) simp_all

lemma parse_first_argument_error:
  assumes name: "\<forall>c\<in>set name. c \<noteq> CHR '' '' \<and> c \<noteq> NUL"
    and err: "DVParse debugger arg (count - of_nat (length name) - 1) = DV_ERROR # dvs"
  shows "parse ext debugger (name @ CHR '' '' # arg) count =
    (printf (''Parse error'' @ [NL]) [] debugger, 0)"
  using err by (simp add: parse_def strchr_first_space [OF name])

lemma DVParse_loop_error_origin:
  "fst (snd (snd (DVParse_loop debugger string len pstate current))) = PARSE_ERROR \<Longrightarrow>
   pstate \<noteq> PARSE_ERROR \<Longrightarrow>
   \<exists>p c rest q a. string = p @ c # rest
     \<and> DVParse_loop debugger p len pstate current = ([], len - of_nat (length p), q, a)
     \<and> len - of_nat (length p) \<noteq> 0 \<and> c \<noteq> NUL \<and> c \<noteq> CHR '' ''
     \<and> q \<noteq> PARSE_ERROR \<and> fst (DVParse_step debugger q a c) = PARSE_ERROR"
proof (induction string arbitrary: len pstate current)
  case Nil
  then show ?case by simp
next
  case (Cons c string)
  from Cons.prems have go: "len > 0 \<and> c \<noteq> NUL \<and> c \<noteq> CHR '' ''"
    by (auto split: if_splits)
  obtain st cu where step: "DVParse_step debugger pstate current c = (st, cu)"
    by (cases "DVParse_step debugger pstate current c")
  from go Cons.prems(2) step
  have unfold: "\<And>s. DVParse_loop debugger (c # s) len pstate current =
      DVParse_loop debugger s (len - 1) st cu"
    by simp
  show ?case
  proof (cases "st = PARSE_ERROR")
    case True
    have "c # string = [] @ c # string
      \<and> DVParse_loop debugger [] len pstate current = ([], len - of_nat (length ([]::string)), pstate, current)
      \<and> len - of_nat (length ([]::string)) \<noteq> 0 \<and> c \<noteq> NUL \<and> c \<noteq> CHR '' ''
      \<and> pstate \<noteq> PARSE_ERROR \<and> fst (DVParse_step debugger pstate current c) = PARSE_ERROR"
      using go Cons.prems(2) step True by (simp add: word_greater_zero_iff)
    then show ?thesis by blast
  next
    case False
    from Cons.prems(1) unfold
    have "fst (snd (snd (DVParse_loop debugger string (len - 1) st cu))) = PARSE_ERROR"
      by simp
    from Cons.IH [OF this False] obtain p c' rest q a where
      p: "string = p @ c' # rest"
      "DVParse_loop debugger p (len - 1) st cu = ([], len - 1 - of_nat (length p), q, a)"
      "len - 1 - of_nat (length p) \<noteq> 0" "c' \<noteq> NUL" "c' \<noteq> CHR '' ''"
      "q \<noteq> PARSE_ERROR" "fst (DVParse_step debugger q a c') = PARSE_ERROR"
      by blast
    have "c # string = (c # p) @ c' # rest
      \<and> DVParse_loop debugger (c # p) len pstate current = ([], len - of_nat (length (c # p)), q, a)
      \<and> len - of_nat (length (c # p)) \<noteq> 0 \<and> c' \<noteq> NUL \<and> c' \<noteq> CHR '' ''
      \<and> q \<noteq> PARSE_ERROR \<and> fst (DVParse_step debugger q a c') = PARSE_ERROR"
      using p unfold [of p] by (simp add: diff_diff_eq add.commute)
    then show ?thesis by blast
  qed
qed

lemma of_nat_mod_2_32: "(of_nat (n mod 2 ^ 32) :: uint32_t) = of_nat n"
  by (simp add: word_of_nat_eq_iff take_bit_eq_mod)

lemma DVParse_registers:
  "DVParse d ''r0'' 2 = [DV_INT (gprs (cpu d) 0)]"
  "DVParse d ''r2'' 2 = [DV_INT (gprs (cpu d) 2)]"
  "DVParse d ''r3'' 2 = [DV_INT (gprs (cpu d) 3)]"
  "DVParse d ''r4'' 2 = [DV_INT (gprs (cpu d) 4)]"
  "DVParse d ''r5'' 2 = [DV_INT (gprs (cpu d) 5)]"
  "DVParse d ''r6'' 2 = [DV_INT (gprs (cpu d) 6)]"
  "DVParse d ''r7'' 2 = [DV_INT (gprs (cpu d) 7)]"
  "DVParse d ''r8'' 2 = [DV_INT (gprs (cpu d) 8)]"
  "DVParse d ''r9'' 2 = [DV_INT (gprs (cpu d) 9)]"
  "DVParse d ''r10'' 3 = [DV_INT (gprs (cpu d) 10)]"
  "DVParse d ''r11'' 3 = [DV_INT (gprs (cpu d) 11)]"
  "DVParse d ''r12'' 3 = [DV_INT (gprs (cpu d) 12)]"
  "DVParse d ''r13'' 3 = [DV_INT (gprs (cpu d) 13)]"
  "DVParse d ''r14'' 3 = [DV_INT (gprs (cpu d) 14)]"
  "DVParse d ''r15'' 3 = [DV_INT (gprs (cpu d) 15)]"
  "DVParse d ''pc'' 2 = [DV_INT (gprs (cpu d) ARM_PC)]"
  "DVParse d ''sp'' 2 = [DV_INT (gprs (cpu d) ARM_SP)]"
  "DVParse d ''lr'' 2 = [DV_INT (gprs (cpu d) ARM_LR)]"
  by (simp_all add: DVParse_eval)

text \<open>C3 does not hold for \<open>r1\<close>: the token \<open>r1\<close>, given as a complete
  argument, leaves the parser in the state that waits for the second digit of
  \<open>r10\<close> to \<open>r15\<close>, so it yields the integer 0, the initial accumulator, whatever
  register 1 holds. Every other register token yields its register
  (\<open>DVParse_registers\<close>).\<close>

theorem C3_r1_parses_to_zero:
  "DVParse debugger ''r1'' 2 = [DV_INT 0]"
  by (simp add: DVParse_eval)

theorem C3_r1_parses_to_zero_witness:
  "gprs (cpu sample_debugger) 1 = 0x1001 \<and> DVParse sample_debugger ''r1'' 2 = [DV_INT 0]"
  using C3_r1_parses_to_zero [of sample_debugger]
  by (simp add: sample_debugger_def sample_cpu_def)

text \<open>C1 does not hold when the malformed token is not the first: in the remainder
  \<open>1 zz\<close> the second token is malformed. \<open>_DVParse\<close> yields the integer 1 followed by an error node,
  not a single error; \<open>_parse\<close> looks at the head node only, so it prints no
  \<open>Parse error\<close>, finds the command and runs its handler: \<open>b 1 zz\<close> sets a breakpoint
  at address 1, \<open>p 1 zz\<close> prints 1 and then the unwritten value of the error node, and
  both return 1.\<close>

theorem C1_malformed_later_token_is_dispatched:
  "DVParse debugger (''1 zz'' @ [NL]) 4 = [DV_INT 1, DV_ERROR]
   \<and> parse ext debugger (''b 1 zz'' @ [NL]) 6 =
       (debugger\<lparr>breakpoints := 1 # breakpoints debugger\<rparr>, 1)
   \<and> parse ext debugger (''p 1 zz'' @ [NL]) 6 =
       (debugger\<lparr>stdout := stdout debugger @
          [('' %u'', [ArgInt 1]), ('' %u'', [ArgIndeterminate]), ([NL], [])]\<rparr>, 1)"
  by (simp add: parse_def DVParse_eval debuggerCommands_def strlen_def tolower_def print_def
      printf_def)

theorem C1_malformed_later_token_is_dispatched_witness:
  "breakpoints (fst (parse sample_ext sample_debugger (''b 1 zz'' @ [NL]) 6)) = [1]
   \<and> stdout (fst (parse sample_ext sample_debugger (''b 1 zz'' @ [NL]) 6)) = []
   \<and> snd (parse sample_ext sample_debugger (''b 1 zz'' @ [NL]) 6) = 1"
  using C1_malformed_later_token_is_dispatched [of sample_debugger sample_ext]
  by (simp add: sample_debugger_def)

text \<open>C10: an argument that ends in the middle of a token is accepted as the integer 0,
  the accumulator at the end of the loop. The head of the result is an error node only
  when the loop, in a state other than the error state, has read a character (before the
  length ran out, and neither a space nor the terminator) on which that state has no
  transition.\<close>

theorem C10_truncated_token_accepted:
  "DVParse debugger ''0'' 1 = [DV_INT 0] \<and> DVParse debugger ''0x'' 2 = [DV_INT 0]
   \<and> DVParse debugger ''$'' 1 = [DV_INT 0] \<and> DVParse debugger ''r'' 1 = [DV_INT 0]
   \<and> DVParse debugger ''r1'' 2 = [DV_INT 0] \<and> DVParse debugger ''l'' 1 = [DV_INT 0]
   \<and> DVParse debugger ''p'' 1 = [DV_INT 0] \<and> DVParse debugger ''s'' 1 = [DV_INT 0]
   \<and> (DVParse debugger string len = DV_ERROR # dvs \<longrightarrow>
        (\<exists>p c rest q a. string = p @ c # rest
           \<and> DVParse_loop debugger p len PARSE_ROOT 0 = ([], len - of_nat (length p), q, a)
           \<and> len - of_nat (length p) \<noteq> 0 \<and> c \<noteq> NUL \<and> c \<noteq> CHR '' ''
           \<and> q \<noteq> PARSE_ERROR \<and> fst (DVParse_step debugger q a c) = PARSE_ERROR))"
proof -
  have "\<exists>p c rest q a. string = p @ c # rest
           \<and> DVParse_loop debugger p len PARSE_ROOT 0 = ([], len - of_nat (length p), q, a)
           \<and> len - of_nat (length p) \<noteq> 0 \<and> c \<noteq> NUL \<and> c \<noteq> CHR '' ''
           \<and> q \<noteq> PARSE_ERROR \<and> fst (DVParse_step debugger q a c) = PARSE_ERROR"
    if err: "DVParse debugger string len = DV_ERROR # dvs"
  proof -
    from err have len: "len \<noteq> 0" by (auto simp: DVParse_0)
    with err have "fst (snd (snd (DVParse_loop debugger string len PARSE_ROOT 0))) = PARSE_ERROR"
      by (simp add: DVParse_unfold Let_def split: if_splits)
    then show ?thesis by (rule DVParse_loop_error_origin) simp
  qed
  then show ?thesis by (simp add: DVParse_eval)
qed

theorem C10_truncated_token_accepted_witness:
  "DVParse sample_debugger ''0z'' 2 = [DV_ERROR]
   \<and> (\<exists>p c rest q a. ''0z'' = p @ c # rest
         \<and> DVParse_loop sample_debugger p 2 PARSE_ROOT 0 = ([], 2 - of_nat (length p), q, a)
         \<and> (2::size_t) - of_nat (length p) \<noteq> 0 \<and> c \<noteq> NUL \<and> c \<noteq> CHR '' ''
         \<and> q \<noteq> PARSE_ERROR \<and> fst (DVParse_step sample_debugger q a c) = PARSE_ERROR)"
proof -
  have e: "DVParse sample_debugger ''0z'' 2 = DV_ERROR # []"
    by (simp add: DVParse_eval)
  from C10_truncated_token_accepted [of sample_debugger "''0z''" 2 "[]"] e show ?thesis
    by blast
qed

lemma DVParse_zero_token:
  assumes len: "len \<noteq> 0"
    and stop: "len = 1 \<or> peek rest = NUL \<or> peek rest = CHR '' ''"
  shows "DVParse debugger (CHR ''0'' # rest) len =
    DV_INT 0 # (if peek rest = CHR '' '' then DVParse debugger (tl rest) (len - 1 - 1) else [])"
proof -
  from stop have "len - 1 = 0 \<or> peek rest = NUL \<or> peek rest = CHR '' ''"
    by auto
  then have "DVParse_loop debugger rest (len - 1) PARSE_EXPECT_PREFIX 0 =
      (rest, len - 1, PARSE_EXPECT_PREFIX, 0)"
    by (rule DVParse_loop_stop)
  then have loop: "DVParse_loop debugger (CHR ''0'' # rest) len PARSE_ROOT 0 =
      (rest, len - 1, PARSE_EXPECT_PREFIX, 0)"
    using len by (simp add: word_greater_zero_iff NUL_def)
  show ?thesis
    using DVParse_token [OF len loop] by simp
qed

lemmas parse_eval = parse_def DVParse_eval debuggerCommands_def strlen_def tolower_def
  print_def printf_def sample_debugger_def

text \<open>C8: the accumulation is unchecked 32-bit arithmetic. Each decimal digit takes the
  accumulator to \<open>current * 10 + digit\<close> and each hexadecimal digit to
  \<open>current * 16 + digit\<close>, in \<open>uint32_t\<close>. A decimal literal \<open>[1-9][0-9]*\<close> and a
  hexadecimal literal (\<open>$\<close>, \<open>0x\<close> or \<open>0X\<close>, then hexadecimal digits) at the start of
  the string given to the parser, ending where the given length runs out, at the
  terminator or at a space, yields as its node the mathematical value of the literal
  modulo \<open>2^32\<close>; after a space the node is followed by the parse of what comes after the
  space, with the length that is left.\<close>

theorem C8_accumulation_wraps:
  "(c \<in> set ''0123456789'' \<longrightarrow>
      DVParse_step debugger PARSE_EXPECT_DECIMAL current c =
        (PARSE_EXPECT_DECIMAL, current * 10 + of_nat (digit_value c)))
   \<and> (c \<in> hex_digits \<longrightarrow>
      DVParse_step debugger PARSE_EXPECT_HEX current c =
        (PARSE_EXPECT_HEX, current * 16 + of_nat (hex_digit_value c)))
   \<and> (d1 \<in> set ''123456789'' \<and> (\<forall>d\<in>set ds. d \<in> set ''0123456789'')
        \<and> length (d1 # ds) \<le> unat len
        \<and> (length (d1 # ds) = unat len \<or> peek rest = NUL \<or> peek rest = CHR '' '') \<longrightarrow>
      DVParse debugger ((d1 # ds) @ rest) len =
        DV_INT (of_nat (decimal_value (d1 # ds) mod 2 ^ 32)) #
          (if peek rest = CHR '' ''
           then DVParse debugger (tl rest) (len - of_nat (length (d1 # ds)) - 1) else []))
   \<and> ((\<forall>h\<in>set hs. h \<in> hex_digits) \<and> length (CHR ''$'' # hs) \<le> unat len
        \<and> (length (CHR ''$'' # hs) = unat len \<or> peek rest = NUL \<or> peek rest = CHR '' '') \<longrightarrow>
      DVParse debugger ((CHR ''$'' # hs) @ rest) len =
        DV_INT (of_nat (hex_value hs mod 2 ^ 32)) #
          (if peek rest = CHR '' ''
           then DVParse debugger (tl rest) (len - of_nat (length (CHR ''$'' # hs)) - 1) else []))
   \<and> ((x = CHR ''x'' \<or> x = CHR ''X'') \<and> (\<forall>h\<in>set hs. h \<in> hex_digits)
        \<and> length (CHR ''0'' # x # hs) \<le> unat len
        \<and> (length (CHR ''0'' # x # hs) = unat len \<or> peek rest = NUL \<or> peek rest = CHR '' '') \<longrightarrow>
      DVParse debugger ((CHR ''0'' # x # hs) @ rest) len =
        DV_INT (of_nat (hex_value hs mod 2 ^ 32)) #
          (if peek rest = CHR '' ''
           then DVParse debugger (tl rest) (len - of_nat (length (CHR ''0'' # x # hs)) - 1)
           else []))"
proof (intro conjI impI)
  assume "c \<in> set ''0123456789''"
  then show "DVParse_step debugger PARSE_EXPECT_DECIMAL current c =
      (PARSE_EXPECT_DECIMAL, current * 10 + of_nat (digit_value c))"
    by (rule DVParse_step_decimal)
next
  assume "c \<in> hex_digits"
  then show "DVParse_step debugger PARSE_EXPECT_HEX current c =
      (PARSE_EXPECT_HEX, current * 16 + of_nat (hex_digit_value c))"
    by (rule DVParse_step_hex)
next
  assume a: "d1 \<in> set ''123456789'' \<and> (\<forall>d\<in>set ds. d \<in> set ''0123456789'')
        \<and> length (d1 # ds) \<le> unat len
        \<and> (length (d1 # ds) = unat len \<or> peek rest = NUL \<or> peek rest = CHR '' '')"
  have "DVParse debugger ((d1 # ds) @ rest) len =
      DV_INT (of_nat (decimal_value (d1 # ds))) #
        (if peek rest = CHR '' ''
         then DVParse debugger (tl rest) (len - of_nat (length (d1 # ds)) - 1) else [])"
    by (rule DVParse_decimal) (use a in blast)+
  then show "DVParse debugger ((d1 # ds) @ rest) len =
      DV_INT (of_nat (decimal_value (d1 # ds) mod 2 ^ 32)) #
        (if peek rest = CHR '' ''
         then DVParse debugger (tl rest) (len - of_nat (length (d1 # ds)) - 1) else [])"
    by (simp only: of_nat_mod_2_32)
next
  assume a: "(\<forall>h\<in>set hs. h \<in> hex_digits) \<and> length (CHR ''$'' # hs) \<le> unat len
        \<and> (length (CHR ''$'' # hs) = unat len \<or> peek rest = NUL \<or> peek rest = CHR '' '')"
  have "DVParse debugger ((CHR ''$'' # hs) @ rest) len =
      DV_INT (of_nat (hex_value hs)) #
        (if peek rest = CHR '' ''
         then DVParse debugger (tl rest) (len - of_nat (length (CHR ''$'' # hs)) - 1) else [])"
    by (rule DVParse_dollar) (use a in blast)+
  then show "DVParse debugger ((CHR ''$'' # hs) @ rest) len =
      DV_INT (of_nat (hex_value hs mod 2 ^ 32)) #
        (if peek rest = CHR '' ''
         then DVParse debugger (tl rest) (len - of_nat (length (CHR ''$'' # hs)) - 1) else [])"
    by (simp only: of_nat_mod_2_32)
next
  assume a: "(x = CHR ''x'' \<or> x = CHR ''X'') \<and> (\<forall>h\<in>set hs. h \<in> hex_digits)
        \<and> length (CHR ''0'' # x # hs) \<le> unat len
        \<and> (length (CHR ''0'' # x # hs) = unat len \<or> peek rest = NUL \<or> peek rest = CHR '' '')"
  have "DVParse debugger ((CHR ''0'' # x # hs) @ rest) len =
      DV_INT (of_nat (hex_value hs)) #
        (if peek rest = CHR '' ''
         then DVParse debugger (tl rest) (len - of_nat (length (CHR ''0'' # x # hs)) - 1)
         else [])"
    by (rule DVParse_0x) (use a in blast)+
  then show "DVParse debugger ((CHR ''0'' # x # hs) @ rest) len =
      DV_INT (of_nat (hex_value hs mod 2 ^ 32)) #
        (if peek rest = CHR '' ''
         then DVParse debugger (tl rest) (len - of_nat (length (CHR ''0'' # x # hs)) - 1)
         else [])"
    by (simp only: of_nat_mod_2_32)
qed

text \<open>Arguments as the REPL hands them over, the newline after them not counted in the
  length: \<open>4294967297\<close> is 1 modulo \<open>2^32\<close> and \<open>1FFFFFFFe\<close> is \<open>0xFFFFFFFE\<close>; a
  literal followed by a space and another argument; and the line \<open>p 4294967297 $1FFFFFFFe\<close>
  as \<open>_parse\<close> gets it.\<close>

theorem C8_accumulation_wraps_witness:
  "DVParse_step sample_debugger PARSE_EXPECT_DECIMAL 0xFFFFFFFF CHR ''7'' =
     (PARSE_EXPECT_DECIMAL, 0xFFFFFFFD)
   \<and> DVParse_step sample_debugger PARSE_EXPECT_HEX 0xFFFFFFFF CHR ''7'' =
     (PARSE_EXPECT_HEX, 0xFFFFFFF7)
   \<and> DVParse sample_debugger (''4294967297'' @ [NL]) 10 = [DV_INT 1]
   \<and> DVParse sample_debugger (''$1FFFFFFFe'' @ [NL]) 10 = [DV_INT 0xFFFFFFFE]
   \<and> DVParse sample_debugger (''0x1FFFFFFFe'' @ [NL]) 11 = [DV_INT 0xFFFFFFFE]
   \<and> DVParse sample_debugger (''4294967297 0X1FFFFFFFe'' @ [NL]) 22 =
       [DV_INT 1, DV_INT 0xFFFFFFFE]
   \<and> parse sample_ext sample_debugger (''p 4294967297 $1FFFFFFFe'' @ [NL]) 23 =
       (sample_debugger\<lparr>stdout :=
          [('' %u'', [ArgInt 1]), ('' %u'', [ArgInt 0xFFFFFFFE]), ([NL], [])]\<rparr>, 1)"
proof -
  have 1: "DVParse_step sample_debugger PARSE_EXPECT_DECIMAL 0xFFFFFFFF CHR ''7'' =
      (PARSE_EXPECT_DECIMAL, 0xFFFFFFFD)
    \<and> DVParse_step sample_debugger PARSE_EXPECT_HEX 0xFFFFFFFF CHR ''7'' =
      (PARSE_EXPECT_HEX, 0xFFFFFFF7)
    \<and> DVParse sample_debugger (''4294967297'' @ [NL]) 10 = [DV_INT 1]
    \<and> DVParse sample_debugger (''$1FFFFFFFe'' @ [NL]) 10 = [DV_INT 0xFFFFFFFE]"
    using C8_accumulation_wraps [where debugger = sample_debugger and c = "CHR ''7''"
        and current = "0xFFFFFFFF" and ?d1.0 = "CHR ''4''" and ds = "''294967297''"
        and len = 10 and hs = "''1FFFFFFFe''" and rest = "[NL]" and x = "CHR ''x''"]
    by (simp add: decimal_value_def digit_value_def hex_value_def hex_digit_value_def
        hex_digits_def NL_def)
  have 2: "DVParse sample_debugger (''0x1FFFFFFFe'' @ [NL]) 11 = [DV_INT 0xFFFFFFFE]"
    using C8_accumulation_wraps [where debugger = sample_debugger and c = "CHR ''7''"
        and len = 11 and hs = "''1FFFFFFFe''" and rest = "[NL]" and x = "CHR ''x''"]
    by (simp add: hex_value_def hex_digit_value_def hex_digits_def NL_def)
  have 3: "DVParse sample_debugger (''0X1FFFFFFFe'' @ [NL]) 11 = [DV_INT 0xFFFFFFFE]"
    using C8_accumulation_wraps [where debugger = sample_debugger and c = "CHR ''7''"
        and len = 11 and hs = "''1FFFFFFFe''" and rest = "[NL]" and x = "CHR ''X''"]
    by (simp add: hex_value_def hex_digit_value_def hex_digits_def NL_def)
  have 4: "DVParse sample_debugger (''4294967297 0X1FFFFFFFe'' @ [NL]) 22 =
      DV_INT 1 # DVParse sample_debugger (''0X1FFFFFFFe'' @ [NL]) 11"
    using C8_accumulation_wraps [where debugger = sample_debugger and c = "CHR ''7''"
        and ?d1.0 = "CHR ''4''" and ds = "''294967297''" and len = 22
        and rest = "'' 0X1FFFFFFFe'' @ [NL]"]
    by (simp add: decimal_value_def digit_value_def)
  have 5: "parse sample_ext sample_debugger (''p 4294967297 $1FFFFFFFe'' @ [NL]) 23 =
       (sample_debugger\<lparr>stdout :=
          [('' %u'', [ArgInt 1]), ('' %u'', [ArgInt 0xFFFFFFFE]), ([NL], [])]\<rparr>, 1)"
    by (simp add: parse_eval)
  from 1 2 3 4 5 show ?thesis by simp
qed

text \<open>C4 (as the code has it): a decimal literal \<open>[1-9][0-9]*\<close> at the start of the
  string given to the parser, ending where the given length runs out, at the terminator or
  at a space, yields as its node its value modulo \<open>2^32\<close>. For an argument that begins
  with \<open>0\<close> and has at least one more character within the given length, the parser
  returns an error node unless the argument is \<open>0x\<close> or \<open>0X\<close> followed by hexadecimal
  digits only (none included); when that argument is the first of a command line,
  \<open>_parse\<close> prints \<open>Parse error\<close> and returns 0. The argument \<open>0\<close> alone yields the
  integer 0.\<close>

theorem C4_decimal_and_leading_zero:
  "(d1 \<in> set ''123456789'' \<and> (\<forall>d\<in>set ds. d \<in> set ''0123456789'')
        \<and> length (d1 # ds) \<le> unat len
        \<and> (length (d1 # ds) = unat len \<or> peek rest = NUL \<or> peek rest = CHR '' '') \<longrightarrow>
      DVParse debugger ((d1 # ds) @ rest) len =
        DV_INT (of_nat (decimal_value (d1 # ds) mod 2 ^ 32)) #
          (if peek rest = CHR '' ''
           then DVParse debugger (tl rest) (len - of_nat (length (d1 # ds)) - 1) else []))
   \<and> (t \<noteq> [] \<and> (\<forall>x\<in>set t. x \<noteq> NUL \<and> x \<noteq> CHR '' '')
        \<and> length (CHR ''0'' # t) \<le> unat len
        \<and> \<not> ((hd t = CHR ''x'' \<or> hd t = CHR ''X'') \<and> (\<forall>h\<in>set (tl t). h \<in> hex_digits)) \<longrightarrow>
      DVParse debugger ((CHR ''0'' # t) @ rest) len = [DV_ERROR])
   \<and> ((\<forall>n\<in>set name. n \<noteq> CHR '' '' \<and> n \<noteq> NUL)
        \<and> t \<noteq> [] \<and> (\<forall>x\<in>set t. x \<noteq> NUL \<and> x \<noteq> CHR '' '')
        \<and> length (CHR ''0'' # t) \<le> unat (count - of_nat (length name) - 1)
        \<and> \<not> ((hd t = CHR ''x'' \<or> hd t = CHR ''X'') \<and> (\<forall>h\<in>set (tl t). h \<in> hex_digits)) \<longrightarrow>
      parse ext debugger (name @ CHR '' '' # (CHR ''0'' # t) @ rest) count =
        (printf (''Parse error'' @ [NL]) [] debugger, 0))
   \<and> (len \<noteq> 0 \<and> (len = 1 \<or> peek rest = NUL \<or> peek rest = CHR '' '') \<longrightarrow>
      DVParse debugger (CHR ''0'' # rest) len =
        DV_INT 0 #
          (if peek rest = CHR '' '' then DVParse debugger (tl rest) (len - 1 - 1) else []))"
proof (intro conjI impI)
  assume a: "d1 \<in> set ''123456789'' \<and> (\<forall>d\<in>set ds. d \<in> set ''0123456789'')
        \<and> length (d1 # ds) \<le> unat len
        \<and> (length (d1 # ds) = unat len \<or> peek rest = NUL \<or> peek rest = CHR '' '')"
  have "DVParse debugger ((d1 # ds) @ rest) len =
      DV_INT (of_nat (decimal_value (d1 # ds))) #
        (if peek rest = CHR '' ''
         then DVParse debugger (tl rest) (len - of_nat (length (d1 # ds)) - 1) else [])"
    by (rule DVParse_decimal) (use a in blast)+
  then show "DVParse debugger ((d1 # ds) @ rest) len =
      DV_INT (of_nat (decimal_value (d1 # ds) mod 2 ^ 32)) #
        (if peek rest = CHR '' ''
         then DVParse debugger (tl rest) (len - of_nat (length (d1 # ds)) - 1) else [])"
    by (simp only: of_nat_mod_2_32)
next
  assume "t \<noteq> [] \<and> (\<forall>x\<in>set t. x \<noteq> NUL \<and> x \<noteq> CHR '' '')
        \<and> length (CHR ''0'' # t) \<le> unat len
        \<and> \<not> ((hd t = CHR ''x'' \<or> hd t = CHR ''X'') \<and> (\<forall>h\<in>set (tl t). h \<in> hex_digits))"
  then show "DVParse debugger ((CHR ''0'' # t) @ rest) len = [DV_ERROR]"
    by (intro DVParse_leading_zero_reject) blast+
next
  assume a: "(\<forall>n\<in>set name. n \<noteq> CHR '' '' \<and> n \<noteq> NUL)
        \<and> t \<noteq> [] \<and> (\<forall>x\<in>set t. x \<noteq> NUL \<and> x \<noteq> CHR '' '')
        \<and> length (CHR ''0'' # t) \<le> unat (count - of_nat (length name) - 1)
        \<and> \<not> ((hd t = CHR ''x'' \<or> hd t = CHR ''X'') \<and> (\<forall>h\<in>set (tl t). h \<in> hex_digits))"
  then have "DVParse debugger ((CHR ''0'' # t) @ rest) (count - of_nat (length name) - 1) =
      DV_ERROR # []"
    by (intro DVParse_leading_zero_reject) blast+
  moreover from a have "\<forall>n\<in>set name. n \<noteq> CHR '' '' \<and> n \<noteq> NUL"
    by blast
  ultimately show "parse ext debugger (name @ CHR '' '' # (CHR ''0'' # t) @ rest) count =
      (printf (''Parse error'' @ [NL]) [] debugger, 0)"
    by (rule parse_first_argument_error [rotated])
next
  assume "len \<noteq> 0 \<and> (len = 1 \<or> peek rest = NUL \<or> peek rest = CHR '' '')"
  then show "DVParse debugger (CHR ''0'' # rest) len =
      DV_INT 0 # (if peek rest = CHR '' '' then DVParse debugger (tl rest) (len - 1 - 1) else [])"
    by (intro DVParse_zero_token) blast+
qed

text \<open>Arguments and lines as the REPL hands them over: \<open>4294967297\<close> is 1 modulo
  \<open>2^32\<close>; \<open>0x1G\<close> and \<open>00\<close> give an error node, and \<open>p 00\<close> is reported as a parse
  error; \<open>0\<close> gives the integer 0.\<close>

theorem C4_decimal_and_leading_zero_witness:
  "DVParse sample_debugger (''4294967297'' @ [NL]) 10 = [DV_INT 1]
   \<and> DVParse sample_debugger (''0x1G'' @ [NL]) 4 = [DV_ERROR]
   \<and> DVParse sample_debugger (''00'' @ [NL]) 2 = [DV_ERROR]
   \<and> parse sample_ext sample_debugger (''p 00'' @ [NL]) 4 =
       (sample_debugger\<lparr>stdout := [(''Parse error'' @ [NL], [])]\<rparr>, 0)
   \<and> DVParse sample_debugger (''0'' @ [NL]) 1 = [DV_INT 0]"
proof -
  have 1: "DVParse sample_debugger (''4294967297'' @ [NL]) 10 = [DV_INT 1]"
    using C4_decimal_and_leading_zero [where debugger = sample_debugger and ext = sample_ext
        and ?d1.0 = "CHR ''4''" and ds = "''294967297''" and len = 10 and rest = "[NL]"
        and t = "''x1G''" and name = "''p''" and count = 6]
    by (simp add: decimal_value_def digit_value_def NL_def)
  have 2: "DVParse sample_debugger (''0x1G'' @ [NL]) 4 = [DV_ERROR]"
    using C4_decimal_and_leading_zero [where debugger = sample_debugger and ext = sample_ext
        and ?d1.0 = "CHR ''4''" and ds = "''29''" and len = 4 and rest = "[NL]"
        and t = "''x1G''" and name = "''p''" and count = 6]
    by (simp add: hex_digits_def NUL_def)
  have 3: "DVParse sample_debugger (''00'' @ [NL]) 2 = [DV_ERROR]
    \<and> parse sample_ext sample_debugger (''p 00'' @ [NL]) 4 =
       (sample_debugger\<lparr>stdout := [(''Parse error'' @ [NL], [])]\<rparr>, 0)"
    using C4_decimal_and_leading_zero [where debugger = sample_debugger and ext = sample_ext
        and ?d1.0 = "CHR ''4''" and ds = "''2''" and len = 2 and rest = "[NL]"
        and t = "''0''" and name = "''p''" and count = 4]
    by (simp add: NUL_def printf_def sample_debugger_def)
  have 4: "DVParse sample_debugger (''0'' @ [NL]) 1 = [DV_INT 0]"
    using C4_decimal_and_leading_zero [where debugger = sample_debugger and ext = sample_ext
        and ?d1.0 = "CHR ''4''" and ds = "[]" and len = 1 and rest = "[NL]"
        and t = "''0''" and name = "''p''" and count = 4]
    by (simp add: NL_def NUL_def)
  from 1 2 3 4 show ?thesis by simp
qed

theorem C4_counterexample:
  "DVParse sample_debugger (''0'' @ [NL]) 1 = [DV_INT 0]
   \<and> parse sample_ext sample_debugger (''p 0'' @ [NL]) 3 =
       (sample_debugger\<lparr>stdout := [('' %u'', [ArgInt 0]), ([NL], [])]\<rparr>, 1)
   \<and> parse sample_ext sample_debugger (''p 0x'' @ [NL]) 4 =
       (sample_debugger\<lparr>stdout := [('' %u'', [ArgInt 0]), ([NL], [])]\<rparr>, 1)
   \<and> decimal_value ''4294967296'' = 4294967296
   \<and> parse sample_ext sample_debugger (''p 4294967296'' @ [NL]) 12 =
       (sample_debugger\<lparr>stdout := [('' %u'', [ArgInt 0]), ([NL], [])]\<rparr>, 1)"
  by (simp add: parse_eval decimal_value_def digit_value_def)

section \<open>Breakpoints and watchpoints\<close>

lemma missing_argument_cases:
  assumes "dv = [] \<or> type (hd dv) \<noteq> INT_TYPE"
  obtains "dv = []" | next' where "dv = DV_ERROR # next'"
  | charValue next' where "dv = DV_CHAR charValue # next'"
proof (cases dv)
  case Nil
  then show ?thesis using that by simp
next
  case (Cons v next')
  with assms show ?thesis using that by (cases v) simp_all
qed

text \<open>C5: when the first argument is absent or is not an integer, \<open>_setBreakpoint\<close> and
  \<open>_setWatchpoint\<close> print \<open>Arguments missing\<close> and change nothing else: the controller
  is the same but for the standard output, so the breakpoint list, the watchpoint list and
  the CPU's memory interface are unchanged, and the shim is not installed.\<close>

theorem C5_missing_argument_no_mutation:
  assumes "dv = [] \<or> type (hd dv) \<noteq> INT_TYPE"
  shows "setBreakpoint debugger dv =
      debugger\<lparr>stdout := stdout debugger @ [(''%s'' @ [NL], [ArgStr ''Arguments missing''])]\<rparr>
    \<and> setWatchpoint ext debugger dv =
      debugger\<lparr>stdout := stdout debugger @ [(''%s'' @ [NL], [ArgStr ''Arguments missing''])]\<rparr>
    \<and> breakpoints (setBreakpoint debugger dv) = breakpoints debugger
    \<and> watchpoints (memoryShim (setBreakpoint debugger dv)) = watchpoints (memoryShim debugger)
    \<and> memory (cpu (setBreakpoint debugger dv)) = memory (cpu debugger)
    \<and> breakpoints (setWatchpoint ext debugger dv) = breakpoints debugger
    \<and> watchpoints (memoryShim (setWatchpoint ext debugger dv)) = watchpoints (memoryShim debugger)
    \<and> memory (cpu (setWatchpoint ext debugger dv)) = memory (cpu debugger)"
  using assms
  by (cases rule: missing_argument_cases) (simp_all add: printf_def ERROR_MISSING_ARGS_def)

theorem C5_missing_argument_no_mutation_witness:
  "setBreakpoint sample_debugger [DV_ERROR, DV_INT 4] =
      sample_debugger\<lparr>stdout := [(''%s'' @ [NL], [ArgStr ''Arguments missing''])]\<rparr>
   \<and> setWatchpoint sample_ext sample_debugger [DV_ERROR, DV_INT 4] =
      sample_debugger\<lparr>stdout := [(''%s'' @ [NL], [ArgStr ''Arguments missing''])]\<rparr>
   \<and> setBreakpoint sample_debugger [] =
      sample_debugger\<lparr>stdout := [(''%s'' @ [NL], [ArgStr ''Arguments missing''])]\<rparr>
   \<and> memory (cpu (setWatchpoint sample_ext sample_debugger [])) = Memory_at 0"
  using C5_missing_argument_no_mutation [of "[DV_ERROR, DV_INT 4]" sample_debugger sample_ext]
    C5_missing_argument_no_mutation [of "[]" sample_debugger sample_ext]
  by (simp add: sample_debugger_def sample_cpu_def)

text \<open>C9: with an integer as first argument, \<open>_setWatchpoint\<close> calls
  \<open>ARMDebuggerInstallMemoryShim\<close> exactly when the CPU's memory interface is not the
  controller's shim, and puts the address at the head of the shim's watchpoint list.
  Whenever installing makes the shim the CPU's memory interface, the shim is the memory
  interface after a registration, and the next registration only adds to the list.\<close>

theorem C9_watchpoint_installs_shim_once:
  "setWatchpoint ext debugger (DV_INT address # dvs) =
     (if memory (cpu debugger) = MemoryShim_d
      then debugger\<lparr>memoryShim := (memoryShim debugger)
             \<lparr>watchpoints := address # watchpoints (memoryShim debugger)\<rparr>\<rparr>
      else (ARMDebuggerInstallMemoryShim ext debugger)
             \<lparr>memoryShim := (memoryShim (ARMDebuggerInstallMemoryShim ext debugger))
               \<lparr>watchpoints :=
                  address # watchpoints (memoryShim (ARMDebuggerInstallMemoryShim ext debugger))\<rparr>\<rparr>)
   \<and> ((\<forall>d. memory (cpu (ARMDebuggerInstallMemoryShim ext d)) = MemoryShim_d) \<longrightarrow>
        memory (cpu (setWatchpoint ext debugger (DV_INT address # dvs))) = MemoryShim_d
        \<and> setWatchpoint ext (setWatchpoint ext debugger (DV_INT address # dvs))
              (DV_INT address' # dvs') =
            (setWatchpoint ext debugger (DV_INT address # dvs))
              \<lparr>memoryShim := (memoryShim (setWatchpoint ext debugger (DV_INT address # dvs)))
                \<lparr>watchpoints := address' #
                   watchpoints (memoryShim (setWatchpoint ext debugger (DV_INT address # dvs)))\<rparr>\<rparr>)
   \<and> (ARMDebuggerInstallMemoryShim ext = InstallMemoryShim_spec
        \<and> memory (cpu debugger) \<noteq> MemoryShim_d \<longrightarrow>
        setWatchpoint ext debugger (DV_INT address # dvs) =
          debugger\<lparr>cpu := (cpu debugger)\<lparr>memory := MemoryShim_d\<rparr>,
            memoryShim := (memoryShim debugger)
              \<lparr>watchpoints := address # watchpoints (memoryShim debugger)\<rparr>\<rparr>)"
proof (intro conjI impI)
  show first: "setWatchpoint ext debugger (DV_INT address # dvs) =
     (if memory (cpu debugger) = MemoryShim_d
      then debugger\<lparr>memoryShim := (memoryShim debugger)
             \<lparr>watchpoints := address # watchpoints (memoryShim debugger)\<rparr>\<rparr>
      else (ARMDebuggerInstallMemoryShim ext debugger)
             \<lparr>memoryShim := (memoryShim (ARMDebuggerInstallMemoryShim ext debugger))
               \<lparr>watchpoints :=
                  address # watchpoints (memoryShim (ARMDebuggerInstallMemoryShim ext debugger))\<rparr>\<rparr>)"
    by (simp add: Let_def)
  assume inst: "\<forall>d. memory (cpu (ARMDebuggerInstallMemoryShim ext d)) = MemoryShim_d"
  then show shim: "memory (cpu (setWatchpoint ext debugger (DV_INT address # dvs))) = MemoryShim_d"
    by (simp add: Let_def)
  then show "setWatchpoint ext (setWatchpoint ext debugger (DV_INT address # dvs))
              (DV_INT address' # dvs') =
            (setWatchpoint ext debugger (DV_INT address # dvs))
              \<lparr>memoryShim := (memoryShim (setWatchpoint ext debugger (DV_INT address # dvs)))
                \<lparr>watchpoints := address' #
                   watchpoints (memoryShim (setWatchpoint ext debugger (DV_INT address # dvs)))\<rparr>\<rparr>"
    by (simp only: setWatchpoint.simps(1) [of ext "setWatchpoint ext debugger (DV_INT address # dvs)"]
        Let_def simp_thms if_False)
next
  assume "ARMDebuggerInstallMemoryShim ext = InstallMemoryShim_spec
        \<and> memory (cpu debugger) \<noteq> MemoryShim_d"
  then show "setWatchpoint ext debugger (DV_INT address # dvs) =
          debugger\<lparr>cpu := (cpu debugger)\<lparr>memory := MemoryShim_d\<rparr>,
            memoryShim := (memoryShim debugger)
              \<lparr>watchpoints := address # watchpoints (memoryShim debugger)\<rparr>\<rparr>"
    by (simp add: Let_def InstallMemoryShim_spec_def)
qed

theorem C9_watchpoint_installs_shim_once_witness:
  "memory (cpu sample_debugger) = Memory_at 0
   \<and> setWatchpoint sample_ext sample_debugger [DV_INT 0x100] =
       sample_debugger\<lparr>cpu := sample_cpu\<lparr>memory := MemoryShim_d\<rparr>,
         memoryShim := \<lparr>watchpoints = [0x100]\<rparr>\<rparr>
   \<and> setWatchpoint sample_ext (setWatchpoint sample_ext sample_debugger [DV_INT 0x100])
        [DV_INT 0x200] =
       sample_debugger\<lparr>cpu := sample_cpu\<lparr>memory := MemoryShim_d\<rparr>,
         memoryShim := \<lparr>watchpoints = [0x200, 0x100]\<rparr>\<rparr>"
  using C9_watchpoint_installs_shim_once [of sample_ext sample_debugger "0x100" "[]" "0x200" "[]"]
  by (simp add: sample_ext_def sample_debugger_def sample_cpu_def InstallMemoryShim_spec_def)

section \<open>The breakpoint check and the run loop\<close>

lemma checkBreakpoints_scan_eq:
  "checkBreakpoints_scan debugger len bps =
     (if \<exists>A\<in>set bps. A + len = gprs (cpu debugger) ARM_PC
      then debugger\<lparr>state := DEBUGGER_PAUSED,
             stdout := stdout debugger @ [(''Hit breakpoint'' @ [NL], [])]\<rparr>
      else debugger)"
  by (induction bps) (simp_all add: printf_def)

lemma checkBreakpoints_eq:
  "checkBreakpoints debugger =
     (if \<exists>A\<in>set (breakpoints debugger).
           A + (if psr_t (cpsr (cpu debugger)) = MODE_ARM then 4 else 2) =
             gprs (cpu debugger) ARM_PC
      then debugger\<lparr>state := DEBUGGER_PAUSED,
             stdout := stdout debugger @ [(''Hit breakpoint'' @ [NL], [])]\<rparr>
      else debugger)"
  by (auto simp add: checkBreakpoints_def checkBreakpoints_scan_eq instructionLength_def
      WORD_SIZE_ARM_def WORD_SIZE_THUMB_def)

text \<open>C2: \<open>_checkBreakpoints\<close> sets the state to Paused and prints one line exactly when
  some record of the list has \<open>address + instructionLength = PC\<close>, with the length 4 in
  ARM mode and 2 in Thumb mode, and prints it once however many records match; otherwise
  it changes nothing. While Running with a non-empty breakpoint list, the run loop makes
  this check after every CPU step: on a match the stepping stops there, Paused, and the
  REPL is entered; without a match the stepping goes on from the state the step left.\<close>

theorem C2_breakpoint_match_pauses:
  "checkBreakpoints debugger =
     (if \<exists>A\<in>set (breakpoints debugger).
           A + (if psr_t (cpsr (cpu debugger)) = MODE_ARM then 4 else 2) =
             gprs (cpu debugger) ARM_PC
      then debugger\<lparr>state := DEBUGGER_PAUSED,
             stdout := stdout debugger @ [(''Hit breakpoint'' @ [NL], [])]\<rparr>
      else debugger)
   \<and> (state debugger = DEBUGGER_RUNNING \<longrightarrow>
        ARMDebuggerRun_checked ext (Suc fuel) debugger =
          (if \<exists>A\<in>set (breakpoints (ARMRun ext debugger)).
                A + (if psr_t (cpsr (cpu (ARMRun ext debugger))) = MODE_ARM then 4 else 2) =
                  gprs (cpu (ARMRun ext debugger)) ARM_PC
           then Some ((ARMRun ext debugger)\<lparr>state := DEBUGGER_PAUSED,
                  stdout := stdout (ARMRun ext debugger) @ [(''Hit breakpoint'' @ [NL], [])]\<rparr>)
           else ARMDebuggerRun_checked ext fuel (ARMRun ext debugger)))
   \<and> (state debugger = DEBUGGER_RUNNING \<and> breakpoints debugger \<noteq> [] \<longrightarrow>
        ARMDebuggerRun_loop ext (Suc fuel) debugger input =
          (case ARMDebuggerRun_checked ext fuel debugger of
             None \<Rightarrow> None
           | Some debugger' \<Rightarrow>
               (case state debugger' of
                  DEBUGGER_PAUSED \<Rightarrow>
                    (case commandLine ext debugger' input of
                       (debugger'', input') \<Rightarrow> ARMDebuggerRun_loop ext fuel debugger'' input')
                | DEBUGGER_RUNNING \<Rightarrow> ARMDebuggerRun_loop ext fuel debugger' input
                | _ \<Rightarrow> Some (debugger', input))))"
proof (intro conjI impI)
  show "checkBreakpoints debugger =
     (if \<exists>A\<in>set (breakpoints debugger).
           A + (if psr_t (cpsr (cpu debugger)) = MODE_ARM then 4 else 2) =
             gprs (cpu debugger) ARM_PC
      then debugger\<lparr>state := DEBUGGER_PAUSED,
             stdout := stdout debugger @ [(''Hit breakpoint'' @ [NL], [])]\<rparr>
      else debugger)"
    by (rule checkBreakpoints_eq)
next
  assume run: "state debugger = DEBUGGER_RUNNING"
  have "ARMDebuggerRun_checked ext (Suc fuel) debugger =
      ARMDebuggerRun_checked ext fuel (checkBreakpoints (ARMRun ext debugger))"
    using run by simp
  also have "\<dots> =
          (if \<exists>A\<in>set (breakpoints (ARMRun ext debugger)).
                A + (if psr_t (cpsr (cpu (ARMRun ext debugger))) = MODE_ARM then 4 else 2) =
                  gprs (cpu (ARMRun ext debugger)) ARM_PC
           then Some ((ARMRun ext debugger)\<lparr>state := DEBUGGER_PAUSED,
                  stdout := stdout (ARMRun ext debugger) @ [(''Hit breakpoint'' @ [NL], [])]\<rparr>)
           else ARMDebuggerRun_checked ext fuel (ARMRun ext debugger))"
    by (cases fuel) (simp_all add: checkBreakpoints_eq [of "ARMRun ext debugger"])
  finally show "ARMDebuggerRun_checked ext (Suc fuel) debugger =
          (if \<exists>A\<in>set (breakpoints (ARMRun ext debugger)).
                A + (if psr_t (cpsr (cpu (ARMRun ext debugger))) = MODE_ARM then 4 else 2) =
                  gprs (cpu (ARMRun ext debugger)) ARM_PC
           then Some ((ARMRun ext debugger)\<lparr>state := DEBUGGER_PAUSED,
                  stdout := stdout (ARMRun ext debugger) @ [(''Hit breakpoint'' @ [NL], [])]\<rparr>)
           else ARMDebuggerRun_checked ext fuel (ARMRun ext debugger))" .
next
  assume "state debugger = DEBUGGER_RUNNING \<and> breakpoints debugger \<noteq> []"
  then show "ARMDebuggerRun_loop ext (Suc fuel) debugger input =
          (case ARMDebuggerRun_checked ext fuel debugger of
             None \<Rightarrow> None
           | Some debugger' \<Rightarrow>
               (case state debugger' of
                  DEBUGGER_PAUSED \<Rightarrow>
                    (case commandLine ext debugger' input of
                       (debugger'', input') \<Rightarrow> ARMDebuggerRun_loop ext fuel debugger'' input')
                | DEBUGGER_RUNNING \<Rightarrow> ARMDebuggerRun_loop ext fuel debugger' input
                | _ \<Rightarrow> Some (debugger', input)))"
    by (simp split: option.splits DebuggerState.splits)
qed

text \<open>The sample controller, Running, with three breakpoints of which the last two match
  after one step (the step takes the program counter from \<open>0x100F\<close> to \<open>0x1013\<close>);
  and with a breakpoint that the step does not reach, where one step of fuel is not
  enough for the stepping to end.\<close>

theorem C2_breakpoint_match_pauses_witness:
  "checkBreakpoints
      (sample_step (sample_debugger\<lparr>state := DEBUGGER_RUNNING,
         breakpoints := [0x2000, 0x100F, 0x100F]\<rparr>)) =
     sample_step (sample_debugger\<lparr>breakpoints := [0x2000, 0x100F, 0x100F]\<rparr>)
       \<lparr>state := DEBUGGER_PAUSED, stdout := [(''Hit breakpoint'' @ [NL], [])]\<rparr>
   \<and> ARMDebuggerRun_checked sample_ext 1
      (sample_debugger\<lparr>state := DEBUGGER_RUNNING, breakpoints := [0x2000, 0x100F, 0x100F]\<rparr>) =
     Some (sample_step (sample_debugger\<lparr>breakpoints := [0x2000, 0x100F, 0x100F]\<rparr>)
       \<lparr>state := DEBUGGER_PAUSED, stdout := [(''Hit breakpoint'' @ [NL], [])]\<rparr>)
   \<and> ARMDebuggerRun_checked sample_ext 1
      (sample_debugger\<lparr>state := DEBUGGER_RUNNING, breakpoints := [0x100B]\<rparr>) = None
   \<and> ARMDebuggerRun_loop sample_ext 1
      (sample_debugger\<lparr>state := DEBUGGER_RUNNING, breakpoints := [0x100B]\<rparr>) [] = None"
  using C2_breakpoint_match_pauses [of
      "sample_step (sample_debugger\<lparr>state := DEBUGGER_RUNNING,
         breakpoints := [0x2000, 0x100F, 0x100F]\<rparr>)" sample_ext 0 "[]"]
    C2_breakpoint_match_pauses [of
      "sample_debugger\<lparr>state := DEBUGGER_RUNNING, breakpoints := [0x2000, 0x100F, 0x100F]\<rparr>"
      sample_ext 0 "[]"]
    C2_breakpoint_match_pauses [of
      "sample_debugger\<lparr>state := DEBUGGER_RUNNING, breakpoints := [0x100B]\<rparr>"
      sample_ext 0 "[]"]
  by (simp add: sample_ext_def sample_debugger_def sample_cpu_def sample_step_def ARM_PC_def
      del: ARMDebuggerRun_loop.simps)

lemma ARMDebuggerRun_loop_inactive:
  "state debugger \<noteq> DEBUGGER_RUNNING \<Longrightarrow> state debugger \<noteq> DEBUGGER_PAUSED \<Longrightarrow>
   ARMDebuggerRun_loop ext fuel debugger input = Some (debugger, input)"
  by (cases fuel; cases "state debugger") simp_all

lemma ARMDebuggerRun_loop_final:
  "ARMDebuggerRun_loop ext fuel debugger input = Some (debugger', input') \<Longrightarrow>
   state debugger' = DEBUGGER_EXITING \<or> state debugger' = DEBUGGER_SHUTDOWN"
proof (induction fuel arbitrary: debugger input)
  case 0
  then show ?case by (cases "state debugger") (auto split: if_splits)
next
  case (Suc fuel)
  show ?case
  proof (cases "DebuggerState_val (state debugger) < DebuggerState_val DEBUGGER_EXITING")
    case False
    with Suc.prems show ?thesis by (cases "state debugger") auto
  next
    case True
    then obtain d1 where inner:
      "(if breakpoints debugger = [] then ARMDebuggerRun_free ext fuel debugger
        else ARMDebuggerRun_checked ext fuel debugger) = Some d1"
      using Suc.prems by (auto split: option.splits)
    show ?thesis
    proof (cases "state d1")
      case DEBUGGER_PAUSED
      obtain d2 i2 where cl: "commandLine ext d1 input = (d2, i2)"
        by (cases "commandLine ext d1 input")
      with True inner DEBUGGER_PAUSED Suc.prems
      have "ARMDebuggerRun_loop ext fuel d2 i2 = Some (debugger', input')"
        by (simp split: if_splits)
      then show ?thesis by (rule Suc.IH)
    next
      case DEBUGGER_RUNNING
      with True inner Suc.prems
      have "ARMDebuggerRun_loop ext fuel d1 input = Some (debugger', input')"
        by (simp split: if_splits)
      then show ?thesis by (rule Suc.IH)
    next
      case DEBUGGER_EXITING
      with True inner Suc.prems show ?thesis by (auto split: if_splits)
    next
      case DEBUGGER_SHUTDOWN
      with True inner Suc.prems show ?thesis by (auto split: if_splits)
    qed
  qed
qed

text \<open>C6: \<open>ARMDebuggerRun\<close> turns Exiting into Running before its loop and leaves
  Shutdown alone. The loop body runs only in the states Running and Paused: in any other
  state the loop returns at once, the controller and the input untouched, so a call in
  Shutdown steps no instruction and reads no line; a call in Exiting goes round the loop
  as a call in Running does; and when the call returns, the state is Exiting or
  Shutdown.\<close>

theorem C6_run_entry_states:
  "(state debugger = DEBUGGER_EXITING \<longrightarrow>
      ARMDebuggerRun ext fuel debugger input =
        ARMDebuggerRun_loop ext fuel (debugger\<lparr>state := DEBUGGER_RUNNING\<rparr>) input)
   \<and> (state debugger = DEBUGGER_EXITING \<longrightarrow>
      ARMDebuggerRun ext (Suc fuel) debugger input =
        (case (if breakpoints debugger = []
               then ARMDebuggerRun_free ext fuel (debugger\<lparr>state := DEBUGGER_RUNNING\<rparr>)
               else ARMDebuggerRun_checked ext fuel (debugger\<lparr>state := DEBUGGER_RUNNING\<rparr>)) of
           None \<Rightarrow> None
         | Some debugger' \<Rightarrow>
             (case state debugger' of
                DEBUGGER_PAUSED \<Rightarrow>
                  (case commandLine ext debugger' input of
                     (debugger'', input') \<Rightarrow> ARMDebuggerRun_loop ext fuel debugger'' input')
              | DEBUGGER_RUNNING \<Rightarrow> ARMDebuggerRun_loop ext fuel debugger' input
              | _ \<Rightarrow> Some (debugger', input))))
   \<and> (state debugger = DEBUGGER_SHUTDOWN \<longrightarrow>
      ARMDebuggerRun ext fuel debugger input = Some (debugger, input))
   \<and> (state debugger \<noteq> DEBUGGER_RUNNING \<and> state debugger \<noteq> DEBUGGER_PAUSED \<longrightarrow>
      ARMDebuggerRun_loop ext fuel debugger input = Some (debugger, input))
   \<and> (ARMDebuggerRun ext fuel debugger input = Some (final, rest) \<longrightarrow>
      state final = DEBUGGER_EXITING \<or> state final = DEBUGGER_SHUTDOWN)"
proof (intro conjI impI)
  assume "state debugger = DEBUGGER_EXITING"
  then show "ARMDebuggerRun ext fuel debugger input =
        ARMDebuggerRun_loop ext fuel (debugger\<lparr>state := DEBUGGER_RUNNING\<rparr>) input"
    by (simp add: ARMDebuggerRun_def)
next
  assume "state debugger = DEBUGGER_EXITING"
  then show "ARMDebuggerRun ext (Suc fuel) debugger input =
        (case (if breakpoints debugger = []
               then ARMDebuggerRun_free ext fuel (debugger\<lparr>state := DEBUGGER_RUNNING\<rparr>)
               else ARMDebuggerRun_checked ext fuel (debugger\<lparr>state := DEBUGGER_RUNNING\<rparr>)) of
           None \<Rightarrow> None
         | Some debugger' \<Rightarrow>
             (case state debugger' of
                DEBUGGER_PAUSED \<Rightarrow>
                  (case commandLine ext debugger' input of
                     (debugger'', input') \<Rightarrow> ARMDebuggerRun_loop ext fuel debugger'' input')
              | DEBUGGER_RUNNING \<Rightarrow> ARMDebuggerRun_loop ext fuel debugger' input
              | _ \<Rightarrow> Some (debugger', input)))"
    by (simp add: ARMDebuggerRun_def split: option.splits DebuggerState.splits)
next
  assume "state debugger = DEBUGGER_SHUTDOWN"
  then show "ARMDebuggerRun ext fuel debugger input = Some (debugger, input)"
    by (simp add: ARMDebuggerRun_def ARMDebuggerRun_loop_inactive)
next
  assume "state debugger \<noteq> DEBUGGER_RUNNING \<and> state debugger \<noteq> DEBUGGER_PAUSED"
  then show "ARMDebuggerRun_loop ext fuel debugger input = Some (debugger, input)"
    by (simp add: ARMDebuggerRun_loop_inactive)
next
  assume "ARMDebuggerRun ext fuel debugger input = Some (final, rest)"
  then show "state final = DEBUGGER_EXITING \<or> state final = DEBUGGER_SHUTDOWN"
    unfolding ARMDebuggerRun_def by (rule ARMDebuggerRun_loop_final)
qed


lemmas run_eval = sample_ext_def sample_debugger_def sample_cpu_def sample_step_def
  ARMDebuggerRun_def checkBreakpoints_eq commandLine_def printStatus_def printPSR_def
  printLine_def instructionLength_def WORD_SIZE_ARM_def ARM_PC_def printf_def Let_def
  parse_def debuggerCommands_def strlen_def tolower_def NUL_def NL_def quit_def print_def
  history_H_ENTER_def DVParse_0 DVParse_unfold char_diff_def

text \<open>The sample controller, Exiting, with a breakpoint that the first step reaches, and
  \<open>q\<close> as the line to read: the call steps the CPU once (the program counter goes from
  \<open>0x100F\<close> to \<open>0x1013\<close>), pauses, reads the line and ends in Shutdown. In Shutdown the
  call returns at once and leaves the line unread.\<close>

theorem C6_run_entry_states_witness:
  "map_option (\<lambda>(d, rest). (state d, gprs (cpu d) ARM_PC, rest))
      (ARMDebuggerRun sample_ext 3
         (sample_debugger\<lparr>state := DEBUGGER_EXITING, breakpoints := [0x100F]\<rparr>)
         [''q'' @ [NL], ''c'' @ [NL]]) =
     Some (DEBUGGER_SHUTDOWN, 0x1013, [''c'' @ [NL]])
   \<and> ARMDebuggerRun sample_ext 3 (sample_debugger\<lparr>state := DEBUGGER_SHUTDOWN\<rparr>) [''c'' @ [NL]] =
     Some (sample_debugger\<lparr>state := DEBUGGER_SHUTDOWN\<rparr>, [''c'' @ [NL]])
   \<and> ARMDebuggerRun_loop sample_ext 3 (sample_debugger\<lparr>state := DEBUGGER_EXITING\<rparr>)
        [''c'' @ [NL]] =
     Some (sample_debugger\<lparr>state := DEBUGGER_EXITING\<rparr>, [''c'' @ [NL]])"
proof -
  let ?d = "sample_debugger\<lparr>state := DEBUGGER_EXITING, breakpoints := [0x100F]\<rparr>"
  let ?s = "sample_debugger\<lparr>state := DEBUGGER_SHUTDOWN\<rparr>"
  let ?e = "sample_debugger\<lparr>state := DEBUGGER_EXITING\<rparr>"
  have run: "ARMDebuggerRun sample_ext 3 ?d [''q'' @ [NL], ''c'' @ [NL]] =
      ARMDebuggerRun_loop sample_ext 3 (?d\<lparr>state := DEBUGGER_RUNNING\<rparr>) [''q'' @ [NL], ''c'' @ [NL]]"
    using C6_run_entry_states [of ?d sample_ext 3 "[''q'' @ [NL], ''c'' @ [NL]]"]
    by (simp add: sample_debugger_def)
  have "map_option (\<lambda>(d, rest). (state d, gprs (cpu d) ARM_PC, rest))
      (ARMDebuggerRun_loop sample_ext 3 (?d\<lparr>state := DEBUGGER_RUNNING\<rparr>)
         [''q'' @ [NL], ''c'' @ [NL]]) =
     Some (DEBUGGER_SHUTDOWN, 0x1013, [''c'' @ [NL]])"
    by (simp add: run_eval numeral_3_eq_3)
  with run have 1: "map_option (\<lambda>(d, rest). (state d, gprs (cpu d) ARM_PC, rest))
      (ARMDebuggerRun sample_ext 3 ?d [''q'' @ [NL], ''c'' @ [NL]]) =
     Some (DEBUGGER_SHUTDOWN, 0x1013, [''c'' @ [NL]])"
    by simp
  have 2: "ARMDebuggerRun sample_ext 3 ?s [''c'' @ [NL]] = Some (?s, [''c'' @ [NL]])"
    using C6_run_entry_states [of ?s sample_ext 3 "[''c'' @ [NL]]"]
    by (simp add: sample_debugger_def)
  have 3: "ARMDebuggerRun_loop sample_ext 3 ?e [''c'' @ [NL]] = Some (?e, [''c'' @ [NL]])"
    using C6_run_entry_states [of ?e sample_ext 3 "[''c'' @ [NL]]"]
    by (simp add: sample_debugger_def)
  from 1 obtain final where
    final: "ARMDebuggerRun sample_ext 3 ?d [''q'' @ [NL], ''c'' @ [NL]] = Some (final, [''c'' @ [NL]])"
    by auto
  from C6_run_entry_states [of ?d sample_ext 3 "[''q'' @ [NL], ''c'' @ [NL]]" final "[''c'' @ [NL]]"]
    final
  have 4: "state final = DEBUGGER_EXITING \<or> state final = DEBUGGER_SHUTDOWN"
    by blast
  from 1 2 3 show ?thesis by blast
qed

section \<open>The REPL\<close>

lemma parse_lookup_result:
  "parse_lookup ext debugger line cmdLength dv table = (debugger', r) \<Longrightarrow>
   (r = 1 \<and> (\<exists>name command. (name, command) \<in> set table \<and> debugger' = command ext debugger dv))
   \<or> (r = 0 \<and> debugger' = printf (''Command not found'' @ [NL]) [] debugger)"
proof (induction table)
  case Nil
  then show ?case by simp
next
  case (Cons e table)
  obtain name command where e: "e = (name, command)"
    by (cases e)
  show ?case
  proof (cases "strlen name \<noteq> cmdLength \<or> strncasecmp name line cmdLength \<noteq> 0")
    case True
    with Cons.prems e
    have "parse_lookup ext debugger line cmdLength dv table = (debugger', r)"
      by (auto split: if_splits)
    from Cons.IH [OF this] show ?thesis
      by (elim disjE conjE exE) (simp_all, blast)
  next
    case False
    with Cons.prems e have "r = 1" and "debugger' = command ext debugger dv"
      by auto
    moreover have "(name, command) \<in> set (e # table)"
      using e by simp
    ultimately show ?thesis by blast
  qed
qed

lemma parse_result:
  assumes "parse ext debugger line count = (debugger', r)"
  shows "(r = 1 \<and> (\<exists>name command dv. (name, command) \<in> set debuggerCommands
            \<and> debugger' = command ext debugger dv))
    \<or> (r = 0 \<and> (debugger' = printf (''Parse error'' @ [NL]) [] debugger
            \<or> debugger' = printf (''Command not found'' @ [NL]) [] debugger))"
proof (cases "strchr line CHR '' ''")
  case None
  with assms have "parse_lookup ext debugger line count [] debuggerCommands = (debugger', r)"
    by (simp add: parse_def)
  from parse_lookup_result [OF this] show ?thesis by blast
next
  case (Some firstSpace)
  let ?dv = "DVParse debugger (drop (firstSpace + 1) line) (count - of_nat firstSpace - 1)"
  show ?thesis
  proof (cases "?dv \<noteq> [] \<and> type (hd ?dv) = ERROR_TYPE")
    case True
    with assms Some show ?thesis by (simp add: parse_def Let_def)
  next
    case False
    with assms Some
    have "parse_lookup ext debugger line (of_nat firstSpace) ?dv debuggerCommands = (debugger', r)"
      by (simp add: parse_def Let_def split: if_splits)
    from parse_lookup_result [OF this] show ?thesis by blast
  qed
qed

text \<open>C7: one turn of the REPL. A line that begins with a newline, with a history that
  is not empty, parses and dispatches the newest history entry as it was stored and adds
  nothing to the history; with an empty history it does nothing. Any other line is
  entered into the history exactly when \<open>_parse\<close> returns 1, and \<open>_parse\<close> returns 1
  exactly when a command of the table was found and run, and 0 when it printed
  \<open>Parse error\<close> or \<open>Command not found\<close> and did nothing else.\<close>

theorem C7_repeat_and_history:
  "(peek line = NL \<and> histate debugger = str # h \<longrightarrow>
      commandLine_step ext debugger line count =
        fst (parse ext debugger str (strlen str - 1)))
   \<and> (peek line = NL \<and> histate debugger = [] \<longrightarrow>
      commandLine_step ext debugger line count = debugger)
   \<and> (peek line \<noteq> NL \<and> parse ext debugger line (of_int (count - 1)) = (debugger', r) \<longrightarrow>
      commandLine_step ext debugger line count =
        (if r = 1 then debugger'\<lparr>histate := take 200 (line # histate debugger')\<rparr>
         else debugger')
      \<and> ((r = 1 \<and> (\<exists>name command dv. (name, command) \<in> set debuggerCommands
              \<and> debugger' = command ext debugger dv))
         \<or> (r = 0 \<and> (debugger' = printf (''Parse error'' @ [NL]) [] debugger
              \<or> debugger' = printf (''Command not found'' @ [NL]) [] debugger))))
   \<and> (state debugger = DEBUGGER_PAUSED \<and> line \<noteq> [] \<longrightarrow>
      commandLine_loop ext debugger (line # input) =
        commandLine_loop ext (commandLine_step ext debugger line (int (length line))) input)"
proof (intro conjI impI)
  assume "peek line = NL \<and> histate debugger = str # h"
  then show "commandLine_step ext debugger line count =
      fst (parse ext debugger str (strlen str - 1))"
    by simp
next
  assume "peek line = NL \<and> histate debugger = []"
  then show "commandLine_step ext debugger line count = debugger"
    by simp
next
  assume a: "peek line \<noteq> NL \<and> parse ext debugger line (of_int (count - 1)) = (debugger', r)"
  then have p: "parse ext debugger line (of_int (count - 1)) = (debugger', r)"
    by simp
  from parse_result [OF p]
  show res: "(r = 1 \<and> (\<exists>name command dv. (name, command) \<in> set debuggerCommands
              \<and> debugger' = command ext debugger dv))
         \<or> (r = 0 \<and> (debugger' = printf (''Parse error'' @ [NL]) [] debugger
              \<or> debugger' = printf (''Command not found'' @ [NL]) [] debugger))" .
  then have "r = 1 \<or> r = 0" by blast
  with a show "commandLine_step ext debugger line count =
        (if r = 1 then debugger'\<lparr>histate := take 200 (line # histate debugger')\<rparr>
         else debugger')"
    by (auto simp add: history_H_ENTER_def)
next
  assume "state debugger = DEBUGGER_PAUSED \<and> line \<noteq> []"
  then show "commandLine_loop ext debugger (line # input) =
        commandLine_loop ext (commandLine_step ext debugger line (int (length line))) input"
    by (simp del: commandLine_step.simps)
qed


text \<open>The sample controller at the prompt: \<open>p 5\<close> is dispatched and entered into the
  history; a bare newline then repeats it; with an empty history a bare newline does
  nothing; \<open>zz\<close> (no such command) and \<open>p zz\<close> (a parse error) are reported and not
  entered.\<close>

theorem C7_repeat_and_history_witness:
  "commandLine_step sample_ext (sample_debugger\<lparr>histate := [''p 5'' @ [NL]]\<rparr>) [NL] 1 =
     sample_debugger\<lparr>histate := [''p 5'' @ [NL]],
       stdout := [('' %u'', [ArgInt 5]), ([NL], [])]\<rparr>
   \<and> commandLine_step sample_ext sample_debugger [NL] 1 = sample_debugger
   \<and> commandLine_step sample_ext sample_debugger (''p 5'' @ [NL]) 4 =
     sample_debugger\<lparr>histate := [''p 5'' @ [NL]],
       stdout := [('' %u'', [ArgInt 5]), ([NL], [])]\<rparr>
   \<and> commandLine_step sample_ext sample_debugger (''zz'' @ [NL]) 3 =
     sample_debugger\<lparr>stdout := [(''Command not found'' @ [NL], [])]\<rparr>
   \<and> commandLine_step sample_ext sample_debugger (''p zz'' @ [NL]) 5 =
     sample_debugger\<lparr>stdout := [(''Parse error'' @ [NL], [])]\<rparr>
   \<and> commandLine_loop sample_ext sample_debugger [''q'' @ [NL], ''p 5'' @ [NL]] =
     (sample_debugger\<lparr>state := DEBUGGER_SHUTDOWN, histate := [''q'' @ [NL]]\<rparr>,
      [''p 5'' @ [NL]])"
proof -
  let ?p5 = "sample_debugger\<lparr>histate := [''p 5'' @ [NL]],
       stdout := [('' %u'', [ArgInt 5]), ([NL], [])]\<rparr>"
  have p5: "parse sample_ext sample_debugger (''p 5'' @ [NL]) (of_int (4 - 1)) =
      (sample_debugger\<lparr>stdout := [('' %u'', [ArgInt 5]), ([NL], [])]\<rparr>, 1)"
    by (simp add: run_eval)
  have zz: "parse sample_ext sample_debugger (''zz'' @ [NL]) (of_int (3 - 1)) =
      (sample_debugger\<lparr>stdout := [(''Command not found'' @ [NL], [])]\<rparr>, 0)"
    by (simp add: run_eval)
  have pzz: "parse sample_ext sample_debugger (''p zz'' @ [NL]) (of_int (5 - 1)) =
      (sample_debugger\<lparr>stdout := [(''Parse error'' @ [NL], [])]\<rparr>, 0)"
    by (simp add: run_eval)
  have q: "commandLine_step sample_ext sample_debugger (''q'' @ [NL]) (int (length (''q'' @ [NL]))) =
      sample_debugger\<lparr>state := DEBUGGER_SHUTDOWN, histate := [''q'' @ [NL]]\<rparr>"
    by (simp add: run_eval)
  have 1: "commandLine_step sample_ext (sample_debugger\<lparr>histate := [''p 5'' @ [NL]]\<rparr>) [NL] 1 = ?p5"
    using C7_repeat_and_history [where line = "[NL]" and ext = sample_ext and count = 1
        and debugger = "sample_debugger\<lparr>histate := [''p 5'' @ [NL]]\<rparr>"
        and str = "''p 5'' @ [NL]" and h = "[]"]
    by (simp add: run_eval)
  have 2: "commandLine_step sample_ext sample_debugger [NL] 1 = sample_debugger"
    using C7_repeat_and_history [where line = "[NL]" and ext = sample_ext and count = 1
        and debugger = sample_debugger]
    by (simp add: sample_debugger_def)
  have 3: "commandLine_step sample_ext sample_debugger (''p 5'' @ [NL]) 4 = ?p5"
    using C7_repeat_and_history [where line = "''p 5'' @ [NL]" and ext = sample_ext
        and count = 4 and debugger = sample_debugger and r = 1
        and debugger' = "sample_debugger\<lparr>stdout := [('' %u'', [ArgInt 5]), ([NL], [])]\<rparr>"] p5
    by (simp add: sample_debugger_def NL_def)
  have 4: "commandLine_step sample_ext sample_debugger (''zz'' @ [NL]) 3 =
      sample_debugger\<lparr>stdout := [(''Command not found'' @ [NL], [])]\<rparr>"
    using C7_repeat_and_history [where line = "''zz'' @ [NL]" and ext = sample_ext
        and count = 3 and debugger = sample_debugger and r = 0
        and debugger' = "sample_debugger\<lparr>stdout := [(''Command not found'' @ [NL], [])]\<rparr>"] zz
    by (simp add: NL_def)
  have 5: "commandLine_step sample_ext sample_debugger (''p zz'' @ [NL]) 5 =
      sample_debugger\<lparr>stdout := [(''Parse error'' @ [NL], [])]\<rparr>"
    using C7_repeat_and_history [where line = "''p zz'' @ [NL]" and ext = sample_ext
        and count = 5 and debugger = sample_debugger and r = 0
        and debugger' = "sample_debugger\<lparr>stdout := [(''Parse error'' @ [NL], [])]\<rparr>"] pzz
    by (simp add: NL_def)
  have 6: "commandLine_loop sample_ext sample_debugger [''q'' @ [NL], ''p 5'' @ [NL]] =
     (sample_debugger\<lparr>state := DEBUGGER_SHUTDOWN, histate := [''q'' @ [NL]]\<rparr>,
      [''p 5'' @ [NL]])"
    using C7_repeat_and_history [where line = "''q'' @ [NL]" and ext = sample_ext
        and debugger = sample_debugger and input = "[''p 5'' @ [NL]]"] q
    by (simp add: sample_debugger_def del: commandLine_step.simps)
  from 1 2 3 4 5 6 show ?thesis by blast
qed

end
